theory Spec2Isabelle
  imports Main
begin

chapter \<open>The block-indexing pipeline of the whisper indexer\<close>

text \<open>
  A shallow embedding of the indexer's core: the store contract of the db module
  (\<^verbatim>\<open>saveMessage\<close>, \<^verbatim>\<open>saveProfile\<close>, \<^verbatim>\<open>getLastBlockHeight\<close>, \<^verbatim>\<open>setLastBlockHeight\<close>), the event
  parser (\<^verbatim>\<open>parseBlock\<close> of \<^verbatim>\<open>src/parser.ts\<close>), and the fetcher and polling loop of the lake
  module. The repository holds the lake module twice: \<^verbatim>\<open>src/lake.ts\<close>, and a newer file that
  adds the retry on a null result, the handling of error bodies and the two-speed pace.
  Both are embedded; the functions of \<^verbatim>\<open>src/lake.ts\<close> carry the suffix \<open>_lake\<close>.

  Functions that throw return a sum with the error on the left. Functions that write the
  store, use the network or sleep take the store or the world and return the new one.
\<close>

section \<open>JavaScript values\<close>

text \<open>
  Values read from the network are the result of \<^verbatim>\<open>JSON.parse\<close>; the program reads them
  through unchecked casts, so they are modelled with their runtime shape and not with their
  declared TypeScript types. \<open>undefined\<close> is \<open>None\<close> of \<open>json option\<close>.
  Numbers are integers: heights, key versions and timestamps are; a number with a
  fractional part is outside the model. An object is the list of its own properties, read
  with \<open>map_of\<close>.
\<close>

datatype json =
    JNull
  | JBool bool
  | JNum int
  | JStr string
  | JArr "json list"
  | JObj "(string \<times> json) list"

datatype error =
    TypeError      \<comment> \<open>property read on null/undefined, call of a non-function, iteration of a non-iterable\<close>
  | SyntaxError    \<comment> \<open>thrown by \<^verbatim>\<open>JSON.parse\<close> and by \<^verbatim>\<open>res.json()\<close>\<close>
  | NetworkError   \<comment> \<open>rejected \<^verbatim>\<open>fetch\<close>\<close>
  | BindError      \<comment> \<open>a statement parameter that is not of the declared column type\<close>
  | ConstraintError \<comment> \<open>a violated \<^verbatim>\<open>UNIQUE\<close> constraint under the default conflict handling\<close>

text \<open>\<^verbatim>\<open>v.name\<close> for a value that is not undefined. The program only reads the fixed property
  names that occur in its text; none of them is inherited from a prototype except
  \<^verbatim>\<open>length\<close> of strings and arrays.\<close>

fun get_prop :: "json \<Rightarrow> string \<Rightarrow> error + json option" where
  "get_prop JNull name = Inl TypeError"
| "get_prop (JObj kvs) name = Inr (map_of kvs name)"
| "get_prop (JArr xs) name =
     Inr (if name = ''length'' then Some (JNum (int (length xs))) else None)"
| "get_prop (JStr s) name =
     Inr (if name = ''length'' then Some (JNum (int (length s))) else None)"
| "get_prop (JNum n) name = Inr None"
| "get_prop (JBool b) name = Inr None"

fun js_get :: "json option \<Rightarrow> string \<Rightarrow> error + json option" where
  "js_get None name = Inl TypeError"
| "js_get (Some v) name = get_prop v name"

text \<open>A chain \<^verbatim>\<open>v.a.b.c\<close>: the first failing read throws.\<close>

fun js_path :: "json option \<Rightarrow> string list \<Rightarrow> error + json option" where
  "js_path v [] = Inr v"
| "js_path v (name # names) =
     (case js_get v name of Inl e \<Rightarrow> Inl e | Inr v' \<Rightarrow> js_path v' names)"

text \<open>Truthiness, as \<^verbatim>\<open>!x\<close>, \<^verbatim>\<open>x && y\<close> and \<^verbatim>\<open>x || y\<close> test it.\<close>

fun truthy :: "json option \<Rightarrow> bool" where
  "truthy None = False"
| "truthy (Some JNull) = False"
| "truthy (Some (JBool b)) = b"
| "truthy (Some (JNum n)) = (n \<noteq> 0)"
| "truthy (Some (JStr s)) = (s \<noteq> [])"
| "truthy (Some (JArr xs)) = True"
| "truthy (Some (JObj kvs)) = True"

text \<open>\<^verbatim>\<open>for (const x of v)\<close>: arrays give their elements, strings their characters, anything
  else is not iterable.\<close>

fun js_iterate :: "json option \<Rightarrow> error + json list" where
  "js_iterate (Some (JArr xs)) = Inr xs"
| "js_iterate (Some (JStr s)) = Inr (map (\<lambda>c. JStr [c]) s)"
| "js_iterate v = Inl TypeError"

text \<open>\<^verbatim>\<open>v === 'literal'\<close>.\<close>

fun is_string :: "json option \<Rightarrow> string \<Rightarrow> bool" where
  "is_string (Some (JStr s)) lit = (s = lit)"
| "is_string v lit = False"

subsection \<open>Numbers and strings\<close>

text \<open>The decimal digit \<open>d\<close>, for \<open>d < 10\<close>.\<close>

definition digit_char :: "nat \<Rightarrow> char" where
  "digit_char d = ''0123456789'' ! d"

fun digits :: "nat \<Rightarrow> string" where
  "digits n = (if n < 10 then [digit_char n] else digits (n div 10) @ [digit_char (n mod 10)])"

declare digits.simps [simp del]

text \<open>\<^verbatim>\<open>String(n)\<close> for an integer \<open>n\<close>.\<close>

definition String_num :: "int \<Rightarrow> string" where
  "String_num n = (if n < 0 then CHR ''-'' # digits (nat (- n)) else digits (nat n))"

definition join_comma :: "string list \<Rightarrow> string" where
  "join_comma ss = (case ss of [] \<Rightarrow> [] | s # rest \<Rightarrow> s @ concat (map (\<lambda>t. CHR '','' # t) rest))"

text \<open>\<^verbatim>\<open>String(v)\<close> for any value.\<close>

fun String_json :: "json \<Rightarrow> string" where
  "String_json JNull = ''null''"
| "String_json (JBool b) = (if b then ''true'' else ''false'')"
| "String_json (JNum n) = String_num n"
| "String_json (JStr s) = s"
| "String_json (JArr xs) =
     join_comma (map (\<lambda>x. if x = JNull then [] else String_json x) xs)"
| "String_json (JObj kvs) = ''[object Object]''"

fun js_String :: "json option \<Rightarrow> string" where
  "js_String None = ''undefined''"
| "js_String (Some v) = String_json v"

text \<open>White space that \<^verbatim>\<open>parseInt\<close> skips: space, tab, line feed, vertical tab, form feed,
  carriage return (the ASCII part of it).\<close>

definition is_space :: "char \<Rightarrow> bool" where
  "is_space c = (of_char c = (32::nat) \<or> ((9::nat) \<le> of_char c \<and> of_char c \<le> (13::nat)))"

definition is_digit :: "char \<Rightarrow> bool" where
  "is_digit c = ((48::nat) \<le> of_char c \<and> of_char c \<le> (57::nat))"

definition digits_value :: "string \<Rightarrow> nat" where
  "digits_value ds = foldl (\<lambda>acc c. acc * 10 + (of_char c - (48::nat))) 0 ds"

text \<open>\<^verbatim>\<open>parseInt(s, 10)\<close>: leading white space, an optional sign, then the longest run of
  decimal digits; \<open>None\<close> is NaN.\<close>

definition parseInt :: "string \<Rightarrow> int option" where
  "parseInt s =
     (let t = dropWhile is_space s;
          neg = (t \<noteq> [] \<and> hd t = CHR ''-'');
          u = (if t \<noteq> [] \<and> (hd t = CHR ''-'' \<or> hd t = CHR ''+'') then tl t else t);
          ds = takeWhile is_digit u
      in if ds = [] then None
         else Some (if neg then - int (digits_value ds) else int (digits_value ds)))"

text \<open>A number that passed the test \<^verbatim>\<open>x > 0\<close>; NaN does not pass.\<close>

fun above_zero :: "int option \<Rightarrow> int option" where
  "above_zero None = None"
| "above_zero (Some n) = (if 0 < n then Some n else None)"

section \<open>The store (db module)\<close>

text \<open>The three tables. A message row as \<^verbatim>\<open>saveMessage\<close> receives it
  (\<^verbatim>\<open>Omit<DbMessage, 'id'>\<close>) is \<open>MessageRow\<close>; a stored row adds the autoincrement id.\<close>

record MessageRow =
  tx_hash :: string
  block_height :: int
  timestamp_ns :: string
  event_type :: string
  sender :: string
  recipient :: string
  encrypted_body :: string
  nonce :: string
  recipient_key_version :: int
  reply_to :: "string option"
  amount :: "string option"

record DbMessage = MessageRow +
  row_id :: nat

record DbProfile =
  account_id :: string
  x25519_pubkey :: string
  key_version :: int
  display_name :: "string option"
  registered_at :: string

record db =
  messages :: "DbMessage list"
  last_id :: nat
  profiles :: "string \<rightharpoonup> DbProfile"
  sync_state :: "string \<rightharpoonup> string"

definition empty_db :: db where
  "empty_db = \<lparr>messages = [], last_id = 0, profiles = Map.empty, sync_state = Map.empty\<rparr>"

text \<open>\<^verbatim>\<open>UNIQUE(tx_hash, event_type, sender, recipient)\<close>.\<close>

definition message_key :: "'a MessageRow_scheme \<Rightarrow> string \<times> string \<times> string \<times> string" where
  "message_key m = (tx_hash m, event_type m, sender m, recipient m)"

definition stored :: "nat \<Rightarrow> MessageRow \<Rightarrow> DbMessage" where
  "stored i m = MessageRow.extend m (DbMessage.fields i)"

text \<open>An \<^verbatim>\<open>INSERT\<close> into \<open>messages\<close>. A new row gets the next id. On a row whose key is
  already stored the conflict clause decides: a plain \<^verbatim>\<open>INSERT\<close> aborts with a constraint
  error, which the driver throws; \<^verbatim>\<open>INSERT OR IGNORE\<close> skips the row and reports nothing.\<close>

datatype conflict = Abort | Ignore

definition insert_message :: "conflict \<Rightarrow> MessageRow \<Rightarrow> db \<Rightarrow> error + db" where
  "insert_message c m d =
     (if \<exists>r \<in> set (messages d). message_key r = message_key m then
        (case c of Abort \<Rightarrow> Inl ConstraintError | Ignore \<Rightarrow> Inr d)
      else Inr (d\<lparr>messages := messages d @ [stored (Suc (last_id d)) m],
                 last_id := Suc (last_id d)\<rparr>))"

text \<open>The prepared statement \<^verbatim>\<open>INSERT OR IGNORE INTO messages ...\<close>.\<close>

definition insertMessage :: "MessageRow \<Rightarrow> db \<Rightarrow> error + db" where
  "insertMessage m d = insert_message Ignore m d"

text \<open>\<^verbatim>\<open>INSERT INTO profiles ... ON CONFLICT(account_id) DO UPDATE SET x25519_pubkey, key_version,
  display_name\<close>: the stored \<open>registered_at\<close> is not in the update list.\<close>

definition upsertProfile :: "DbProfile \<Rightarrow> db \<Rightarrow> db" where
  "upsertProfile p d =
     (case profiles d (account_id p) of
        None \<Rightarrow> d\<lparr>profiles := (profiles d)(account_id p \<mapsto> p)\<rparr>
      | Some old \<Rightarrow>
          d\<lparr>profiles := (profiles d)(account_id p \<mapsto>
               old\<lparr>x25519_pubkey := x25519_pubkey p,
                   key_version := key_version p,
                   display_name := display_name p\<rparr>)\<rparr>)"

text \<open>\<^verbatim>\<open>SELECT value FROM sync_state WHERE key = 'last_block_height'\<close>, then
  \<^verbatim>\<open>row ? parseInt(row.value, 10) : 0\<close>; and \<^verbatim>\<open>INSERT OR REPLACE\<close> of \<^verbatim>\<open>String(height)\<close> under
  that key.\<close>

definition getLastBlockHeight :: "db \<Rightarrow> int option" where
  "getLastBlockHeight d =
     (case sync_state d ''last_block_height'' of
        Some v \<Rightarrow> parseInt v
      | None \<Rightarrow> Some 0)"

definition setLastBlockHeight :: "int \<Rightarrow> db \<Rightarrow> db" where
  "setLastBlockHeight height d =
     d\<lparr>sync_state := (sync_state d)(''last_block_height'' \<mapsto> String_num height)\<rparr>"

definition saveMessage :: "MessageRow \<Rightarrow> db \<Rightarrow> error + db" where
  "saveMessage msg d = insertMessage msg d"

definition saveProfile :: "DbProfile \<Rightarrow> db \<Rightarrow> db" where
  "saveProfile profile d = upsertProfile profile d"

section \<open>The event parser (parser.ts)\<close>

text \<open>What the program takes from its host: \<^verbatim>\<open>JSON.parse\<close> (\<open>None\<close> when it throws a
  SyntaxError) and the environment variables it reads.\<close>

record runtime =
  JSON_parse :: "string \<Rightarrow> json option"
  env_CONTRACT_ID :: "string option"
  env_START_BLOCK :: "string option"

text \<open>\<^verbatim>\<open>process.env.CONTRACT_ID || 'whisper.kaizap.near'\<close>.\<close>

definition CONTRACT_ID :: "runtime \<Rightarrow> string" where
  "CONTRACT_ID rt =
     (case env_CONTRACT_ID rt of
        Some s \<Rightarrow> if s \<noteq> [] then s else ''whisper.kaizap.near''
      | None \<Rightarrow> ''whisper.kaizap.near'')"

definition seq :: "error + 'a \<Rightarrow> ('a \<Rightarrow> error + 'b) \<Rightarrow> error + 'b" where
  "seq r f = (case r of Inl e \<Rightarrow> Inl e | Inr v \<Rightarrow> f v)"

text \<open>
  The rows are built from event items through the casts \<^verbatim>\<open>item as unknown as MessageSentEvent\<close>
  and handed to the prepared statements. The declared row types (\<open>DbMessage\<close>, \<open>DbProfile\<close>)
  are the contract of the statements: a parameter that is a string, a number or (for a
  nullable column) null where the type says so is bound; for any other runtime value the
  call is taken to throw, inside the \<^verbatim>\<open>try\<close> block like every other failure of the line.
\<close>

fun bind_text :: "json option \<Rightarrow> error + string" where
  "bind_text (Some (JStr s)) = Inr s"
| "bind_text v = Inl BindError"

fun bind_int :: "json option \<Rightarrow> error + int" where
  "bind_int (Some (JNum n)) = Inr n"
| "bind_int v = Inl BindError"

fun bind_text_null :: "json option \<Rightarrow> error + string option" where
  "bind_text_null (Some JNull) = Inr None"
| "bind_text_null (Some (JStr s)) = Inr (Some s)"
| "bind_text_null v = Inl BindError"

text \<open>\<^verbatim>\<open>v ?? null\<close>.\<close>

fun or_null :: "json option \<Rightarrow> json option" where
  "or_null None = Some JNull"
| "or_null v = v"

definition field_text :: "json \<Rightarrow> string \<Rightarrow> error + string" where
  "field_text d name = seq (get_prop d name) bind_text"

definition field_int :: "json \<Rightarrow> string \<Rightarrow> error + int" where
  "field_int d name = seq (get_prop d name) bind_int"

definition field_text_or_null :: "json \<Rightarrow> string \<Rightarrow> error + string option" where
  "field_text_or_null d name = seq (get_prop d name) (\<lambda>v. bind_text_null (or_null v))"

definition field_text_null :: "json \<Rightarrow> string \<Rightarrow> error + string option" where
  "field_text_null d name = seq (get_prop d name) bind_text_null"

text \<open>The object literal of the two message cases; \<open>paid\<close> tells them apart
  (\<^verbatim>\<open>amount: null\<close> or \<^verbatim>\<open>amount: d.amount\<close>).\<close>

definition message_row ::
  "json option \<Rightarrow> json option \<Rightarrow> string \<Rightarrow> string \<Rightarrow> bool \<Rightarrow> json \<Rightarrow> error + MessageRow" where
  "message_row txHash blockHeight timestampNs tag paid d =
     seq (bind_text txHash) (\<lambda>tx.
     seq (bind_int blockHeight) (\<lambda>h.
     seq (field_text d ''from'') (\<lambda>sndr.
     seq (field_text d ''to'') (\<lambda>rcpt.
     seq (field_text d ''encrypted_body'') (\<lambda>body.
     seq (field_text d ''nonce'') (\<lambda>nc.
     seq (field_int d ''recipient_key_version'') (\<lambda>ver.
     seq (field_text_or_null d ''reply_to'') (\<lambda>rep.
     seq (if paid then field_text_null d ''amount'' else Inr None) (\<lambda>amt.
       Inr \<lparr>tx_hash = tx, block_height = h, timestamp_ns = timestampNs, event_type = tag,
            sender = sndr, recipient = rcpt, encrypted_body = body, nonce = nc,
            recipient_key_version = ver, reply_to = rep, amount = amt\<rparr>)))))))))"

definition profile_row :: "string \<Rightarrow> json \<Rightarrow> error + DbProfile" where
  "profile_row timestampNs d =
     seq (field_text d ''account_id'') (\<lambda>acc.
     seq (field_text d ''x25519_pubkey'') (\<lambda>pk.
     seq (field_int d ''key_version'') (\<lambda>ver.
     seq (field_text_or_null d ''display_name'') (\<lambda>dn.
       Inr \<lparr>account_id = acc, x25519_pubkey = pk, key_version = ver, display_name = dn,
            registered_at = timestampNs\<rparr>))))"

text \<open>The parser's mutable state: \<open>eventsFound\<close> and the store. A thrown error is the first
  component of a result; the state reached when it was thrown is kept, since nothing rolls
  the store back.\<close>

type_synonym pstate = "nat \<times> db"

text \<open>The body of \<^verbatim>\<open>for (const item of event.data)\<close>: the \<^verbatim>\<open>switch (event.event)\<close>.\<close>

definition handle_item ::
  "json option \<Rightarrow> json option \<Rightarrow> string \<Rightarrow> json option \<Rightarrow> json \<Rightarrow> pstate \<Rightarrow> error option \<times> pstate" where
  "handle_item txHash blockHeight timestampNs tag item st =
     (if is_string tag ''message_sent'' then
        (case message_row txHash blockHeight timestampNs ''message_sent'' False item of
           Inl e \<Rightarrow> (Some e, st)
         | Inr row \<Rightarrow>
             (case saveMessage row (snd st) of
                Inl e \<Rightarrow> (Some e, st)
              | Inr d \<Rightarrow> (None, (Suc (fst st), d))))
      else if is_string tag ''message_sent_with_payment'' then
        (case message_row txHash blockHeight timestampNs ''message_sent_with_payment'' True item of
           Inl e \<Rightarrow> (Some e, st)
         | Inr row \<Rightarrow>
             (case saveMessage row (snd st) of
                Inl e \<Rightarrow> (Some e, st)
              | Inr d \<Rightarrow> (None, (Suc (fst st), d))))
      else if is_string tag ''key_registered'' then
        (case profile_row timestampNs item of
           Inl e \<Rightarrow> (Some e, st)
         | Inr row \<Rightarrow> (None, (Suc (fst st), saveProfile row (snd st))))
      else (None, st))"

fun for_items ::
  "json option \<Rightarrow> json option \<Rightarrow> string \<Rightarrow> json option \<Rightarrow> json list \<Rightarrow> pstate \<Rightarrow> error option \<times> pstate" where
  "for_items txHash blockHeight timestampNs tag [] st = (None, st)"
| "for_items txHash blockHeight timestampNs tag (item # items) st =
     (case handle_item txHash blockHeight timestampNs tag item st of
        (Some e, st') \<Rightarrow> (Some e, st')
      | (None, st') \<Rightarrow> for_items txHash blockHeight timestampNs tag items st')"

text \<open>\<^verbatim>\<open>reo.tx_hash || reo.execution_outcome.id\<close>.\<close>

definition tx_hash_of :: "json \<Rightarrow> error + json option" where
  "tx_hash_of reo =
     seq (get_prop reo ''tx_hash'') (\<lambda>t.
       if truthy t then Inr t else js_path (Some reo) [''execution_outcome'', ''id''])"

text \<open>The body of the \<^verbatim>\<open>try\<close> block for one log line that carries the marker. The tag
  \<^verbatim>\<open>event.event\<close> is read once here and not once per item; the read cannot throw, since
  \<open>event\<close> is not null once \<^verbatim>\<open>event.standard\<close> has been read.\<close>

definition try_body ::
  "runtime \<Rightarrow> json option \<Rightarrow> string \<Rightarrow> json \<Rightarrow> string \<Rightarrow> pstate \<Rightarrow> error option \<times> pstate" where
  "try_body rt blockHeight timestampNs reo log st =
     (case JSON_parse rt (drop 11 log) of
        None \<Rightarrow> (Some SyntaxError, st)
      | Some event \<Rightarrow>
          (case get_prop event ''standard'' of
             Inl e \<Rightarrow> (Some e, st)
           | Inr std \<Rightarrow>
               if \<not> is_string std ''whisper'' then (None, st)
               else
                 (case tx_hash_of reo of
                    Inl e \<Rightarrow> (Some e, st)
                  | Inr txHash \<Rightarrow>
                      (case seq (get_prop event ''data'') js_iterate of
                         Inl e \<Rightarrow> (Some e, st)
                       | Inr items \<Rightarrow>
                           (case get_prop event ''event'' of
                              Inl e \<Rightarrow> (Some e, st)
                            | Inr tag \<Rightarrow>
                                for_items txHash blockHeight timestampNs tag items st)))))"

text \<open>One log line: \<^verbatim>\<open>log.startsWith\<close> is outside the \<^verbatim>\<open>try\<close> block and throws on a value
  that is not a string; the \<^verbatim>\<open>catch\<close> drops whatever the block throws.\<close>

definition handle_log ::
  "runtime \<Rightarrow> json option \<Rightarrow> string \<Rightarrow> json \<Rightarrow> json \<Rightarrow> pstate \<Rightarrow> error option \<times> pstate" where
  "handle_log rt blockHeight timestampNs reo log st =
     (case log of
        JStr s \<Rightarrow>
          if take 11 s \<noteq> ''EVENT_JSON:'' then (None, st)
          else (None, snd (try_body rt blockHeight timestampNs reo s st))
      | _ \<Rightarrow> (Some TypeError, st))"

fun for_logs ::
  "runtime \<Rightarrow> json option \<Rightarrow> string \<Rightarrow> json \<Rightarrow> json list \<Rightarrow> pstate \<Rightarrow> error option \<times> pstate" where
  "for_logs rt blockHeight timestampNs reo [] st = (None, st)"
| "for_logs rt blockHeight timestampNs reo (log # logs) st =
     (case handle_log rt blockHeight timestampNs reo log st of
        (Some e, st') \<Rightarrow> (Some e, st')
      | (None, st') \<Rightarrow> for_logs rt blockHeight timestampNs reo logs st')"

text \<open>One receipt execution outcome.\<close>

definition handle_reo ::
  "runtime \<Rightarrow> json option \<Rightarrow> string \<Rightarrow> json \<Rightarrow> pstate \<Rightarrow> error option \<times> pstate" where
  "handle_reo rt blockHeight timestampNs reo st =
     (case js_path (Some reo) [''execution_outcome'', ''outcome'', ''executor_id''] of
        Inl e \<Rightarrow> (Some e, st)
      | Inr executorId \<Rightarrow>
          if \<not> is_string executorId (CONTRACT_ID rt) then (None, st)
          else
            (case js_path (Some reo) [''execution_outcome'', ''outcome'', ''logs''] of
               Inl e \<Rightarrow> (Some e, st)
             | Inr logs \<Rightarrow>
                 (case js_get logs ''length'' of
                    Inl e \<Rightarrow> (Some e, st)
                  | Inr len \<Rightarrow>
                      if \<not> truthy len then (None, st)
                      else
                        (case js_iterate logs of
                           Inl e \<Rightarrow> (Some e, st)
                         | Inr ls \<Rightarrow> for_logs rt blockHeight timestampNs reo ls st))))"

fun for_reos ::
  "runtime \<Rightarrow> json option \<Rightarrow> string \<Rightarrow> json list \<Rightarrow> pstate \<Rightarrow> error option \<times> pstate" where
  "for_reos rt blockHeight timestampNs [] st = (None, st)"
| "for_reos rt blockHeight timestampNs (reo # reos) st =
     (case handle_reo rt blockHeight timestampNs reo st of
        (Some e, st') \<Rightarrow> (Some e, st')
      | (None, st') \<Rightarrow> for_reos rt blockHeight timestampNs reos st')"

text \<open>One shard: \<^verbatim>\<open>if (!shard.receipt_execution_outcomes?.length) continue\<close>, then the loop
  over the outcomes.\<close>

definition handle_shard ::
  "runtime \<Rightarrow> json option \<Rightarrow> string \<Rightarrow> json \<Rightarrow> pstate \<Rightarrow> error option \<times> pstate" where
  "handle_shard rt blockHeight timestampNs shard st =
     (case get_prop shard ''receipt_execution_outcomes'' of
        Inl e \<Rightarrow> (Some e, st)
      | Inr None \<Rightarrow> (None, st)
      | Inr (Some JNull) \<Rightarrow> (None, st)
      | Inr (Some reos) \<Rightarrow>
          (case get_prop reos ''length'' of
             Inl e \<Rightarrow> (Some e, st)
           | Inr len \<Rightarrow>
               if \<not> truthy len then (None, st)
               else
                 (case js_iterate (Some reos) of
                    Inl e \<Rightarrow> (Some e, st)
                  | Inr rs \<Rightarrow> for_reos rt blockHeight timestampNs rs st)))"

fun for_shards ::
  "runtime \<Rightarrow> json option \<Rightarrow> string \<Rightarrow> json list \<Rightarrow> pstate \<Rightarrow> error option \<times> pstate" where
  "for_shards rt blockHeight timestampNs [] st = (None, st)"
| "for_shards rt blockHeight timestampNs (shard # shards) st =
     (case handle_shard rt blockHeight timestampNs shard st of
        (Some e, st') \<Rightarrow> (Some e, st')
      | (None, st') \<Rightarrow> for_shards rt blockHeight timestampNs shards st')"

text \<open>\<open>parseBlock\<close> returns the number of events found, or throws; either way the store is
  the one the writes made so far have left.\<close>

definition parseBlock :: "runtime \<Rightarrow> json \<Rightarrow> db \<Rightarrow> (error + nat) \<times> db" where
  "parseBlock rt blockData d =
     (case js_path (Some blockData) [''block'', ''header'', ''height''] of
        Inl e \<Rightarrow> (Inl e, d)
      | Inr blockHeight \<Rightarrow>
          (case js_path (Some blockData) [''block'', ''header'', ''timestamp''] of
             Inl e \<Rightarrow> (Inl e, d)
           | Inr ts \<Rightarrow>
               (case seq (get_prop blockData ''shards'') js_iterate of
                  Inl e \<Rightarrow> (Inl e, d)
                | Inr shards \<Rightarrow>
                    (case for_shards rt blockHeight (js_String ts) shards (0, d) of
                       (Some e, st) \<Rightarrow> (Inl e, snd st)
                     | (None, st) \<Rightarrow> (Inr (fst st), snd st)))))"

subsection \<open>Blocks of the declared shape and their event lines\<close>










text \<open>A line is malformed when \<^verbatim>\<open>JSON.parse\<close> throws on what follows the marker.\<close>

definition malformed :: "runtime \<Rightarrow> string \<Rightarrow> bool" where
  "malformed rt s = (JSON_parse rt (drop 11 s) = None)"


text \<open>A stored event, and the one event a recognized line carries: the envelope has the
  standard \<^verbatim>\<open>whisper\<close>, one of the three known tags and a data array of one item from which
  the row can be built.\<close>

datatype stored_event = Message MessageRow | Profile DbProfile


definition row_of :: "json option \<Rightarrow> json option \<Rightarrow> string \<Rightarrow> json option \<Rightarrow> json \<Rightarrow> stored_event option" where
  "row_of txHash blockHeight timestampNs tag item =
     (if is_string tag ''message_sent'' then
        (case message_row txHash blockHeight timestampNs ''message_sent'' False item of
           Inr row \<Rightarrow> Some (Message row) | Inl e \<Rightarrow> None)
      else if is_string tag ''message_sent_with_payment'' then
        (case message_row txHash blockHeight timestampNs ''message_sent_with_payment'' True item of
           Inr row \<Rightarrow> Some (Message row) | Inl e \<Rightarrow> None)
      else if is_string tag ''key_registered'' then
        (case profile_row timestampNs item of
           Inr row \<Rightarrow> Some (Profile row) | Inl e \<Rightarrow> None)
      else None)"

definition recognized :: "runtime \<Rightarrow> json \<Rightarrow> json \<times> string \<Rightarrow> stored_event option" where
  "recognized rt blockData line =
     (case JSON_parse rt (drop 11 (snd line)) of
        Some (JObj kvs) \<Rightarrow>
          (if is_string (map_of kvs ''standard'') ''whisper'' then
             (case (map_of kvs ''data'', tx_hash_of (fst line)) of
                (Some (JArr [item]), Inr txHash) \<Rightarrow>
                  row_of txHash
                    (case js_path (Some blockData) [''block'', ''header'', ''height''] of
                       Inr v \<Rightarrow> v | Inl e \<Rightarrow> None)
                    (js_String (case js_path (Some blockData) [''block'', ''header'', ''timestamp''] of
                       Inr v \<Rightarrow> v | Inl e \<Rightarrow> None))
                    (map_of kvs ''event'') item
              | _ \<Rightarrow> None)
           else None)
      | _ \<Rightarrow> None)"

section \<open>The network and the clock\<close>

text \<open>
  One HTTP exchange ends in a rejected \<^verbatim>\<open>fetch\<close> or in a response with a status and a
  body; the body is \<open>None\<close> when reading it fails. The outside world answers the \<open>n\<close>-th
  request with \<open>net n\<close>, whatever the request is. Every request and every sleep is appended
  to \<open>trace\<close>. Console output is left out.
\<close>

datatype http_outcome = Rejected | Response nat "string option"

datatype effect = GetBlock int | GetTip | Sleep int

record world =
  net :: "nat \<Rightarrow> http_outcome"
  sent :: nat
  trace :: "effect list"

definition fetch :: "effect \<Rightarrow> world \<Rightarrow> http_outcome \<times> world" where
  "fetch req w = (net w (sent w), w\<lparr>sent := Suc (sent w), trace := trace w @ [req]\<rparr>)"

definition sleep :: "int \<Rightarrow> world \<Rightarrow> world" where
  "sleep ms w = w\<lparr>trace := trace w @ [Sleep ms]\<rparr>"

text \<open>\<^verbatim>\<open>res.ok\<close>.\<close>

definition ok :: "nat \<Rightarrow> bool" where
  "ok status = (200 \<le> status \<and> status \<le> 299)"

text \<open>The state of the indexing loop: the locals of \<open>startIndexing\<close>, the module variable
  \<open>latestKnownHeight\<close>, the store and the outside world.\<close>

record indexer =
  currentHeight :: int
  latestKnownHeight :: int
  totalEvents :: nat
  blocksProcessed :: nat
  skippedBlocks :: nat
  database :: db
  io :: world

section \<open>The fetcher and the poller, newer file (unnamed/part\_002)\<close>

definition POLL_INTERVAL_MS :: int where "POLL_INTERVAL_MS = 350"
definition CATCHUP_INTERVAL_MS :: int where "CATCHUP_INTERVAL_MS = 50"
definition IDLE_INTERVAL_MS :: int where "IDLE_INTERVAL_MS = 1000"
definition MAX_RETRIES :: nat where "MAX_RETRIES = 3"
definition RETRY_BASE_MS :: int where "RETRY_BASE_MS = 1000"
definition CATCHUP_THRESHOLD :: int where "CATCHUP_THRESHOLD = 100"

definition fetchBlock :: "runtime \<Rightarrow> int \<Rightarrow> world \<Rightarrow> (error + json) \<times> world" where
  "fetchBlock rt height w =
     (case fetch (GetBlock height) w of
        (Rejected, w') \<Rightarrow> (Inl NetworkError, w')
      | (Response status body, w') \<Rightarrow>
          if status = 200 then
            (case body of
               None \<Rightarrow> (Inl NetworkError, w')
             | Some txt \<Rightarrow>
                 if txt = [] \<or> length txt < 2 then (Inr JNull, w')
                 else
                   (case JSON_parse rt txt of
                      None \<Rightarrow> (Inr JNull, w')
                    | Some data \<Rightarrow>
                        if \<not> truthy (Some data) then (Inr data, w')
                        else
                          (case get_prop data ''error'' of
                             Inl e \<Rightarrow> (Inr JNull, w')
                           | Inr err \<Rightarrow> if truthy err then (Inr JNull, w') else (Inr data, w'))))
          else (Inr JNull, w'))"

text \<open>The height in the body of a tip response, or \<open>None\<close> where the function returns the
  cached height. The body is cast to \<^verbatim>\<open>{ block?: { header: { height: number } }; error?: string }\<close>;
  the cast is trusted for the height itself: a height that is not a number is outside the
  model and leaves the cached height.\<close>

definition tip_of :: "json \<Rightarrow> int option" where
  "tip_of data =
     (case get_prop data ''error'' of
        Inl e \<Rightarrow> None
      | Inr err \<Rightarrow>
          if truthy err then None
          else
            (case get_prop data ''block'' of
               Inl e \<Rightarrow> None
             | Inr blk \<Rightarrow>
                 if \<not> truthy blk then None
                 else
                   (case js_path blk [''header'', ''height''] of
                      Inr (Some (JNum n)) \<Rightarrow> Some n
                    | _ \<Rightarrow> None)))"

text \<open>Returns the height and assigns it to \<open>latestKnownHeight\<close>; the caller stores the
  returned height in that same variable.\<close>

definition fetchLatestBlockHeight :: "runtime \<Rightarrow> int \<Rightarrow> world \<Rightarrow> int \<times> world" where
  "fetchLatestBlockHeight rt latest w =
     (case fetch GetTip w of
        (Rejected, w') \<Rightarrow> (latest, w')
      | (Response status body, w') \<Rightarrow>
          if \<not> ok status then (latest, w')
          else
            (case body of
               None \<Rightarrow> (latest, w')
             | Some txt \<Rightarrow>
                 (case JSON_parse rt txt of
                    None \<Rightarrow> (latest, w')
                  | Some data \<Rightarrow>
                      (case tip_of data of None \<Rightarrow> (latest, w') | Some n \<Rightarrow> (n, w')))))"

text \<open>The \<^verbatim>\<open>for\<close> loop of \<open>fetchBlockWithRetry\<close>, entered at \<open>attempt\<close>.\<close>

function retry_from :: "runtime \<Rightarrow> int \<Rightarrow> nat \<Rightarrow> world \<Rightarrow> (error + json) \<times> world" where
  "retry_from rt height attempt w =
     (if attempt < MAX_RETRIES then
        (case fetchBlock rt height w of
           (Inr result, w') \<Rightarrow>
             if result \<noteq> JNull then (Inr result, w')
             else if attempt < MAX_RETRIES - 1 then
               retry_from rt height (Suc attempt) (sleep (RETRY_BASE_MS * 2 ^ attempt) w')
             else retry_from rt height (Suc attempt) w'
         | (Inl err, w') \<Rightarrow>
             if attempt = MAX_RETRIES - 1 then (Inl err, w')
             else retry_from rt height (Suc attempt) (sleep (RETRY_BASE_MS * 2 ^ attempt) w'))
      else (Inr JNull, w))"
  by pat_completeness auto
termination
  by (relation "measure (\<lambda>(rt, height, attempt, w). MAX_RETRIES - attempt)") auto

declare retry_from.simps [simp del]

text \<open>The requests and sleeps a call makes when every attempt is needed, from \<open>attempt\<close>
  on: a request per attempt, and between two attempts a sleep of
  \<open>RETRY_BASE_MS * 2 ^ attempt\<close>.\<close>

definition backoff_from :: "int \<Rightarrow> nat \<Rightarrow> effect list" where
  "backoff_from height attempt =
     concat (map (\<lambda>i. GetBlock height #
                        (if i < MAX_RETRIES - 1 then [Sleep (RETRY_BASE_MS * 2 ^ i)] else []))
               [attempt..<MAX_RETRIES])"

definition fetchBlockWithRetry :: "runtime \<Rightarrow> int \<Rightarrow> world \<Rightarrow> (error + json) \<times> world" where
  "fetchBlockWithRetry rt height w = retry_from rt height 0 w"

text \<open>\<^verbatim>\<open>envStart && parseInt(envStart, 10) > 0\<close>, and then \<^verbatim>\<open>parseInt(envStart, 10)\<close>.\<close>

definition start_from_env :: "runtime \<Rightarrow> int option" where
  "start_from_env rt =
     (case env_START_BLOCK rt of
        None \<Rightarrow> None
      | Some envStart \<Rightarrow> if envStart \<noteq> [] then above_zero (parseInt envStart) else None)"

text \<open>Returns the start height, the new \<open>latestKnownHeight\<close> and the world.\<close>

definition getStartBlockHeight :: "runtime \<Rightarrow> db \<Rightarrow> int \<Rightarrow> world \<Rightarrow> int \<times> int \<times> world" where
  "getStartBlockHeight rt d latest w =
     (case above_zero (getLastBlockHeight d) of
        Some saved \<Rightarrow> (saved + 1, latest, w)
      | None \<Rightarrow>
          (case start_from_env rt of
             Some n \<Rightarrow> (n, latest, w)
           | None \<Rightarrow> (let (tip, w') = fetchLatestBlockHeight rt latest w in (tip, tip, w'))))"

text \<open>The tip refresh at the head of the loop body.\<close>

definition refresh_tip :: "runtime \<Rightarrow> indexer \<Rightarrow> indexer" where
  "refresh_tip rt s =
     (if blocksProcessed s mod 200 = 0 then
        (let (tip, w) = fetchLatestBlockHeight rt (latestKnownHeight s) (io s)
         in s\<lparr>latestKnownHeight := tip, io := w\<rparr>)
      else s)"

text \<open>The two-speed sleep after a processed block; \<open>height\<close> is \<open>currentHeight\<close> after its
  increment.\<close>

definition pace :: "int \<Rightarrow> int \<Rightarrow> int" where
  "pace latest height =
     (if latest - height > CATCHUP_THRESHOLD then CATCHUP_INTERVAL_MS else POLL_INTERVAL_MS)"

text \<open>The body of \<^verbatim>\<open>while (running)\<close> after the tip refresh: the \<^verbatim>\<open>try\<close> block with its
  \<^verbatim>\<open>catch\<close>.\<close>

definition process_height :: "runtime \<Rightarrow> indexer \<Rightarrow> indexer" where
  "process_height rt s =
     (if currentHeight s > latestKnownHeight s then
        (let (tip, w) = fetchLatestBlockHeight rt (latestKnownHeight s)
                          (sleep IDLE_INTERVAL_MS (io s))
         in s\<lparr>latestKnownHeight := tip, io := w\<rparr>)
      else
        (case fetchBlockWithRetry rt (currentHeight s) (io s) of
           (Inl err, w) \<Rightarrow> s\<lparr>io := sleep 5000 w\<rparr>
         | (Inr blockData, w) \<Rightarrow>
             if blockData = JNull then
               s\<lparr>skippedBlocks := Suc (skippedBlocks s),
                 database := setLastBlockHeight (currentHeight s) (database s),
                 currentHeight := currentHeight s + 1,
                 io := w\<rparr>
             else
               (case parseBlock rt blockData (database s) of
                  (Inl err, d) \<Rightarrow> s\<lparr>database := d, io := sleep 5000 w\<rparr>
                | (Inr eventsFound, d) \<Rightarrow>
                    s\<lparr>totalEvents :=
                        (if 0 < eventsFound then totalEvents s + eventsFound else totalEvents s),
                      database := setLastBlockHeight (currentHeight s) d,
                      blocksProcessed := Suc (blocksProcessed s),
                      currentHeight := currentHeight s + 1,
                      io := sleep (pace (latestKnownHeight s) (currentHeight s + 1)) w\<rparr>)))"

definition iteration :: "runtime \<Rightarrow> indexer \<Rightarrow> indexer" where
  "iteration rt s = process_height rt (refresh_tip rt s)"

text \<open>\<open>startIndexing\<close> up to the loop, in a fresh process (\<open>latestKnownHeight\<close> is 0), and
  the loop for a number of rounds. The \<open>running\<close> flag, which another task clears, is not
  modelled.\<close>

definition startIndexing_init :: "runtime \<Rightarrow> db \<Rightarrow> world \<Rightarrow> indexer" where
  "startIndexing_init rt d w =
     (let (start, latest, w1) = getStartBlockHeight rt d 0 w;
          (tip, w2) = fetchLatestBlockHeight rt latest w1
      in \<lparr>currentHeight = start, latestKnownHeight = tip, totalEvents = 0,
          blocksProcessed = 0, skippedBlocks = 0, database = d, io = w2\<rparr>)"

fun rounds :: "runtime \<Rightarrow> nat \<Rightarrow> indexer \<Rightarrow> indexer" where
  "rounds rt 0 s = s"
| "rounds rt (Suc n) s = rounds rt n (iteration rt s)"

section \<open>The fetcher and the poller, older file (src/lake.ts)\<close>

text \<open>The same functions as the file \<^verbatim>\<open>src/lake.ts\<close> has them; their names carry the
  suffix \<open>_lake\<close>. \<open>IDLE_INTERVAL_MS\<close> and \<open>MAX_RETRIES\<close> have the values of the newer file.\<close>

definition POLL_INTERVAL_MS_lake :: int where "POLL_INTERVAL_MS_lake = 50"
definition RETRY_BASE_MS_lake :: int where "RETRY_BASE_MS_lake = 500"

definition fetchBlock_lake :: "runtime \<Rightarrow> int \<Rightarrow> world \<Rightarrow> (error + json) \<times> world" where
  "fetchBlock_lake rt height w =
     (case fetch (GetBlock height) w of
        (Rejected, w') \<Rightarrow> (Inl NetworkError, w')
      | (Response status body, w') \<Rightarrow>
          if status = 200 then
            (case body of
               None \<Rightarrow> (Inl NetworkError, w')
             | Some txt \<Rightarrow>
                 (case JSON_parse rt txt of
                    None \<Rightarrow> (Inl SyntaxError, w')
                  | Some data \<Rightarrow> (Inr data, w')))
          else (Inr JNull, w'))"

definition tip_of_lake :: "json \<Rightarrow> int option" where
  "tip_of_lake data =
     (case js_path (Some data) [''block'', ''header'', ''height''] of
        Inr (Some (JNum n)) \<Rightarrow> Some n
      | _ \<Rightarrow> None)"

definition fetchLatestBlockHeight_lake :: "runtime \<Rightarrow> int \<Rightarrow> world \<Rightarrow> int \<times> world" where
  "fetchLatestBlockHeight_lake rt latest w =
     (case fetch GetTip w of
        (Rejected, w') \<Rightarrow> (latest, w')
      | (Response status body, w') \<Rightarrow>
          if \<not> ok status then (latest, w')
          else
            (case body of
               None \<Rightarrow> (latest, w')
             | Some txt \<Rightarrow>
                 (case JSON_parse rt txt of
                    None \<Rightarrow> (latest, w')
                  | Some data \<Rightarrow>
                      (case tip_of_lake data of None \<Rightarrow> (latest, w') | Some n \<Rightarrow> (n, w')))))"

text \<open>The result of \<open>fetchBlock\<close> is returned as it is, null included (\<^verbatim>\<open>Don't retry on null\<close>);
  only a thrown error leads to another attempt.\<close>

function retry_from_lake :: "runtime \<Rightarrow> int \<Rightarrow> nat \<Rightarrow> world \<Rightarrow> (error + json) \<times> world" where
  "retry_from_lake rt height attempt w =
     (if attempt < MAX_RETRIES then
        (case fetchBlock_lake rt height w of
           (Inr result, w') \<Rightarrow> (Inr result, w')
         | (Inl err, w') \<Rightarrow>
             if attempt = MAX_RETRIES - 1 then (Inl err, w')
             else retry_from_lake rt height (Suc attempt)
                    (sleep (RETRY_BASE_MS_lake * 2 ^ attempt) w'))
      else (Inr JNull, w))"
  by pat_completeness auto
termination
  by (relation "measure (\<lambda>(rt, height, attempt, w). MAX_RETRIES - attempt)") auto

declare retry_from_lake.simps [simp del]

definition fetchBlockWithRetry_lake :: "runtime \<Rightarrow> int \<Rightarrow> world \<Rightarrow> (error + json) \<times> world" where
  "fetchBlockWithRetry_lake rt height w = retry_from_lake rt height 0 w"

text \<open>The requests and sleeps of a call in which every attempt throws, from \<open>attempt\<close> on.\<close>

definition backoff_from_lake :: "int \<Rightarrow> nat \<Rightarrow> effect list" where
  "backoff_from_lake height attempt =
     concat (map (\<lambda>i. GetBlock height #
                        (if i < MAX_RETRIES - 1 then [Sleep (RETRY_BASE_MS_lake * 2 ^ i)] else []))
               [attempt..<MAX_RETRIES])"

definition getStartBlockHeight_lake :: "runtime \<Rightarrow> db \<Rightarrow> int \<Rightarrow> world \<Rightarrow> int \<times> int \<times> world" where
  "getStartBlockHeight_lake rt d latest w =
     (case above_zero (getLastBlockHeight d) of
        Some saved \<Rightarrow> (saved + 1, latest, w)
      | None \<Rightarrow>
          (case start_from_env rt of
             Some n \<Rightarrow> (n, latest, w)
           | None \<Rightarrow> (let (tip, w') = fetchLatestBlockHeight_lake rt latest w in (tip, tip, w'))))"

definition refresh_tip_lake :: "runtime \<Rightarrow> indexer \<Rightarrow> indexer" where
  "refresh_tip_lake rt s =
     (if blocksProcessed s mod 500 = 0 then
        (let (tip, w) = fetchLatestBlockHeight_lake rt (latestKnownHeight s) (io s)
         in s\<lparr>latestKnownHeight := tip, io := w\<rparr>)
      else s)"

definition process_height_lake :: "runtime \<Rightarrow> indexer \<Rightarrow> indexer" where
  "process_height_lake rt s =
     (if currentHeight s > latestKnownHeight s then
        (let (tip, w) = fetchLatestBlockHeight_lake rt (latestKnownHeight s)
                          (sleep IDLE_INTERVAL_MS (io s))
         in s\<lparr>latestKnownHeight := tip, io := w\<rparr>)
      else
        (case fetchBlockWithRetry_lake rt (currentHeight s) (io s) of
           (Inl err, w) \<Rightarrow> s\<lparr>io := sleep 5000 w\<rparr>
         | (Inr blockData, w) \<Rightarrow>
             if blockData = JNull then
               s\<lparr>skippedBlocks := Suc (skippedBlocks s),
                 database := setLastBlockHeight (currentHeight s) (database s),
                 currentHeight := currentHeight s + 1,
                 io := w\<rparr>
             else
               (case parseBlock rt blockData (database s) of
                  (Inl err, d) \<Rightarrow> s\<lparr>database := d, io := sleep 5000 w\<rparr>
                | (Inr eventsFound, d) \<Rightarrow>
                    s\<lparr>totalEvents :=
                        (if 0 < eventsFound then totalEvents s + eventsFound else totalEvents s),
                      database := setLastBlockHeight (currentHeight s) d,
                      blocksProcessed := Suc (blocksProcessed s),
                      currentHeight := currentHeight s + 1,
                      io := sleep POLL_INTERVAL_MS_lake w\<rparr>)))"

definition iteration_lake :: "runtime \<Rightarrow> indexer \<Rightarrow> indexer" where
  "iteration_lake rt s = process_height_lake rt (refresh_tip_lake rt s)"

definition startIndexing_init_lake :: "runtime \<Rightarrow> db \<Rightarrow> world \<Rightarrow> indexer" where
  "startIndexing_init_lake rt d w =
     (let (start, latest, w1) = getStartBlockHeight_lake rt d 0 w;
          (tip, w2) = fetchLatestBlockHeight_lake rt latest w1
      in \<lparr>currentHeight = start, latestKnownHeight = tip, totalEvents = 0,
          blocksProcessed = 0, skippedBlocks = 0, database = d, io = w2\<rparr>)"

section \<open>Sample data\<close>

text \<open>Two message rows with the same key and different payloads, and two registrations of
  one account.\<close>

definition msg1 :: MessageRow where
  "msg1 = \<lparr>tx_hash = ''tx1'', block_height = 100, timestamp_ns = ''1700'',
     event_type = ''message_sent'', sender = ''a.near'', recipient = ''b.near'',
     encrypted_body = ''first'', nonce = ''n1'', recipient_key_version = 1,
     reply_to = None, amount = None\<rparr>"

definition msg2 :: MessageRow where
  "msg2 = msg1\<lparr>block_height := 101, timestamp_ns := ''1800'', encrypted_body := ''second'',
     nonce := ''n2'', recipient_key_version := 2, reply_to := Some ''x'', amount := Some ''5''\<rparr>"

definition prof1 :: DbProfile where
  "prof1 = \<lparr>account_id = ''a.near'', x25519_pubkey = ''K1'', key_version = 1,
     display_name = None, registered_at = ''1000''\<rparr>"

definition prof2 :: DbProfile where
  "prof2 = \<lparr>account_id = ''a.near'', x25519_pubkey = ''K2'', key_version = 2,
     display_name = Some ''Alice'', registered_at = ''2000''\<rparr>"

text \<open>
  JSON texts and the values \<^verbatim>\<open>JSON.parse\<close> gives for them: a \<open>message_sent\<close> event, a
  \<open>key_registered\<close> event, an event text that breaks off, the body of a rate-limit answer,
  a tip answer and a block without shards. \<open>sample_parse\<close> is \<^verbatim>\<open>JSON.parse\<close> on these
  texts; it is used on no other text.
\<close>

definition txt_msg :: string where
  \<open>txt_msg = ''{"standard":"whisper","version":"1.0.0","event":"message_sent","data":[{"from":"a.near","to":"b.near","encrypted_body":"c2VjcmV0","nonce":"bm9uY2U","recipient_key_version":1,"reply_to":null}]}''\<close>

definition ev_msg :: json where
  "ev_msg =
     JObj [(''standard'', JStr ''whisper''), (''version'', JStr ''1.0.0''), (''event'',
     JStr ''message_sent''), (''data'', JArr [JObj [(''from'', JStr ''a.near''), (''to'',
     JStr ''b.near''), (''encrypted_body'', JStr ''c2VjcmV0''), (''nonce'', JStr ''bm9uY2U''),
     (''recipient_key_version'', JNum 1), (''reply_to'', JNull)]])]"

definition txt_key :: string where
  \<open>txt_key = ''{"standard":"whisper","version":"1.0.0","event":"key_registered","data":[{"account_id":"a.near","x25519_pubkey":"cHVia2V5","key_version":1,"display_name":"Alice"}]}''\<close>

definition ev_key :: json where
  "ev_key =
     JObj [(''standard'', JStr ''whisper''), (''version'', JStr ''1.0.0''), (''event'',
     JStr ''key_registered''), (''data'', JArr [JObj [(''account_id'', JStr ''a.near''),
     (''x25519_pubkey'', JStr ''cHVia2V5''), (''key_version'', JNum 1), (''display_name'',
     JStr ''Alice'')]])]"

definition txt_bad :: string where
  \<open>txt_bad = ''{"standard":"whisper","event":"message_sent","data":[{"from":''\<close>

definition txt_err :: string where
  \<open>txt_err = ''{"error":"rate limited"}''\<close>

definition val_err :: json where
  "val_err = JObj [(''error'', JStr ''rate limited'')]"

definition txt_err_null :: string where
  \<open>txt_err_null = ''{"error":null}''\<close>

definition val_err_null :: json where
  "val_err_null = JObj [(''error'', JNull)]"

definition txt_tip :: string where
  \<open>txt_tip = ''{"block":{"header":{"height":500}}}''\<close>

definition val_tip :: json where
  "val_tip = JObj [(''block'', JObj [(''header'', JObj [(''height'', JNum 500)])])]"

definition txt_blk :: string where
  \<open>txt_blk = ''{"block":{"header":{"height":500,"timestamp":1700,"hash":"h"}},"shards":[]}''\<close>

definition val_blk :: json where
  "val_blk =
     JObj [(''block'', JObj [(''header'', JObj [(''height'', JNum 500), (''timestamp'',
     JNum 1700), (''hash'', JStr ''h'')])]), (''shards'', JArr [])]"

definition sample_parse :: "string \<Rightarrow> json option" where
  "sample_parse =
     map_of [(txt_msg, ev_msg), (txt_key, ev_key), (txt_err, val_err), (txt_tip, val_tip),
             (txt_blk, val_blk), (''{}'', JObj []), (txt_err_null, val_err_null)]"

definition rt0 :: runtime where
  "rt0 = \<lparr>JSON_parse = sample_parse, env_CONTRACT_ID = None, env_START_BLOCK = None\<rparr>"

text \<open>The same runtime with \<^verbatim>\<open>START_BLOCK=0\<close> and with \<^verbatim>\<open>START_BLOCK=77\<close>.\<close>

definition rt_start_0 :: runtime where
  "rt_start_0 = \<lparr>JSON_parse = sample_parse, env_CONTRACT_ID = None, env_START_BLOCK = Some ''0''\<rparr>"

definition rt_start_77 :: runtime where
  "rt_start_77 =
     \<lparr>JSON_parse = sample_parse, env_CONTRACT_ID = None, env_START_BLOCK = Some ''77''\<rparr>"







text \<open>Worlds that answer every request alike, and a loop state at height 500 with the
  cached tip at 1000, one block after a tip refresh.\<close>



definition world_of :: "http_outcome \<Rightarrow> world" where
  "world_of r = \<lparr>net = (\<lambda>n. r), sent = 0, trace = []\<rparr>"

definition state_at :: "int \<Rightarrow> int \<Rightarrow> http_outcome \<Rightarrow> indexer" where
  "state_at height tip r =
     \<lparr>currentHeight = height, latestKnownHeight = tip, totalEvents = 0, blocksProcessed = 1,
      skippedBlocks = 0, database = empty_db, io = world_of r\<rparr>"

section \<open>Numbers and their decimal strings\<close>

lemma of_char_digit_char: "d < 10 \<Longrightarrow> of_char (digit_char d) = 48 + d"
proof -
  assume "d < 10"
  then have "d \<in> {0, 1, 2, 3, 4, 5, 6, 7, 8, 9}" by auto
  then show ?thesis by (auto simp: digit_char_def)
qed

lemma is_digit_digit_char: "d < 10 \<Longrightarrow> is_digit (digit_char d)"
  by (simp add: is_digit_def of_char_digit_char)

lemma not_space_digit_char: "d < 10 \<Longrightarrow> \<not> is_space (digit_char d)"
  by (simp add: is_space_def of_char_digit_char)

lemma digits_nonempty: "digits n \<noteq> []"
  by (subst digits.simps) simp

lemma digits_all_digit: "\<forall>c \<in> set (digits n). is_digit c"
proof (induction n rule: digits.induct)
  case (1 n)
  show ?case
  proof (cases "n < 10")
    case True
    then show ?thesis by (subst digits.simps) (simp add: is_digit_digit_char)
  next
    case False
    with 1 show ?thesis by (subst digits.simps) (simp add: is_digit_digit_char)
  qed
qed

lemma digits_value_snoc: "digits_value (ds @ [c]) = digits_value ds * 10 + (of_char c - 48)"
  by (simp add: digits_value_def)

lemma digits_value_digits: "digits_value (digits n) = n"
proof (induction n rule: digits.induct)
  case (1 n)
  show ?case
  proof (cases "n < 10")
    case True
    then show ?thesis
      by (subst digits.simps) (simp add: digits_value_def of_char_digit_char)
  next
    case False
    with 1 have "digits_value (digits (n div 10)) = n div 10" by simp
    with False show ?thesis
      by (subst digits.simps) (simp add: digits_value_snoc of_char_digit_char)
  qed
qed

lemma hd_digits_digit: "is_digit (hd (digits n))"
  using digits_all_digit [of n] digits_nonempty [of n] by (cases "digits n") auto

lemma is_digit_not_space: "is_digit c \<Longrightarrow> \<not> is_space c"
  by (auto simp: is_digit_def is_space_def)

lemma is_digit_not_sign: "is_digit c \<Longrightarrow> c \<noteq> CHR ''-'' \<and> c \<noteq> CHR ''+''"
  by (auto simp: is_digit_def)

lemma takeWhile_digits: "takeWhile is_digit (digits n) = digits n"
  using digits_all_digit [of n] by (simp add: takeWhile_eq_all_conv)

lemma dropWhile_digits: "dropWhile is_space (digits n) = digits n"
  using hd_digits_digit [of n] digits_nonempty [of n]
  by (cases "digits n") (auto dest: is_digit_not_space)

lemma parseInt_digits: "parseInt (digits n) = Some (int n)"
  using hd_digits_digit [of n] digits_nonempty [of n] is_digit_not_sign [of "hd (digits n)"]
  by (simp add: parseInt_def Let_def dropWhile_digits takeWhile_digits digits_value_digits)

lemma parseInt_String_num: "parseInt (String_num n) = Some n"
proof (cases "n < 0")
  case False
  then show ?thesis by (simp add: String_num_def parseInt_digits)
next
  case True
  have "\<not> is_space CHR ''-''" by (simp add: is_space_def)
  with True show ?thesis
    by (simp add: String_num_def parseInt_def Let_def takeWhile_digits digits_value_digits
        digits_nonempty)
qed

lemma get_after_set: "getLastBlockHeight (setLastBlockHeight h d) = Some h"
  by (simp add: getLastBlockHeight_def setLastBlockHeight_def parseInt_String_num)

section \<open>Properties of the store\<close>

lemma message_key_stored: "message_key (stored i m) = message_key m"
  by (simp add: message_key_def stored_def MessageRow.defs DbMessage.defs)

lemma truncate_stored: "MessageRow.truncate (stored i m) = m"
  by (simp add: stored_def MessageRow.defs DbMessage.defs)

lemma saveMessage_returns:
  "saveMessage m d =
     Inr (if \<exists>r \<in> set (messages d). message_key r = message_key m then d
          else d\<lparr>messages := messages d @ [stored (Suc (last_id d)) m],
                 last_id := Suc (last_id d)\<rparr>)"
  by (simp add: saveMessage_def insertMessage_def insert_message_def)

lemma plain_insert_conflict:
  "\<exists>r \<in> set (messages d). message_key r = message_key m \<Longrightarrow>
   insert_message Abort m d = Inl ConstraintError"
  by (simp add: insert_message_def)

text \<open>
  C2. Two calls of \<open>saveMessage\<close> with the same (tx\_hash, event\_type, sender, recipient)
  and any other fields: both return without an error, the second call leaves the store
  as the first call left it, and, when the key was not stored before, the store holds
  exactly one row with that key and its fields are those of the first call.
\<close>

theorem saveMessage_first_wins:
  assumes "message_key m2 = message_key m1"
  shows "\<exists>d1. saveMessage m1 d = Inr d1 \<and> saveMessage m2 d1 = Inr d1 \<and>
           ((\<forall>r \<in> set (messages d). message_key r \<noteq> message_key m1) \<longrightarrow>
              map MessageRow.truncate
                (filter (\<lambda>r. message_key r = message_key m1) (messages d1)) = [m1])"
proof -
  obtain d1 where d1: "saveMessage m1 d = Inr d1"
    and d1_def: "d1 = (if \<exists>r \<in> set (messages d). message_key r = message_key m1 then d
          else d\<lparr>messages := messages d @ [stored (Suc (last_id d)) m1],
                 last_id := Suc (last_id d)\<rparr>)"
    by (simp add: saveMessage_returns)
  have known: "\<exists>r \<in> set (messages d1). message_key r = message_key m2"
    using assms by (auto simp: d1_def message_key_stored)
  then have noop: "saveMessage m2 d1 = Inr d1"
    by (simp add: saveMessage_returns)
  have fresh: "map MessageRow.truncate
      (filter (\<lambda>r. message_key r = message_key m1) (messages d1)) = [m1]"
    if "\<forall>r \<in> set (messages d). message_key r \<noteq> message_key m1"
  proof -
    from that have "filter (\<lambda>r. message_key r = message_key m1) (messages d) = []"
      by (simp add: filter_empty_conv)
    with that show ?thesis
      by (simp add: d1_def message_key_stored truncate_stored)
  qed
  show ?thesis
  proof (intro exI [of _ d1] conjI impI)
    show "saveMessage m1 d = Inr d1" by (rule d1)
    show "saveMessage m2 d1 = Inr d1" by (rule noop)
    show "map MessageRow.truncate
        (filter (\<lambda>r. message_key r = message_key m1) (messages d1)) = [m1]"
      if "\<forall>r \<in> set (messages d). message_key r \<noteq> message_key m1"
      using that by (rule fresh)
  qed
qed

theorem saveMessage_first_wins_witness:
  "message_key msg2 = message_key msg1 \<and>
   encrypted_body msg2 \<noteq> encrypted_body msg1 \<and>
   saveMessage msg1 empty_db = Inr (empty_db\<lparr>messages := [stored 1 msg1], last_id := 1\<rparr>) \<and>
   saveMessage msg2 (empty_db\<lparr>messages := [stored 1 msg1], last_id := 1\<rparr>) =
     Inr (empty_db\<lparr>messages := [stored 1 msg1], last_id := 1\<rparr>) \<and>
   map MessageRow.truncate
     (filter (\<lambda>r. message_key r = message_key msg1)
        (messages (empty_db\<lparr>messages := [stored 1 msg1], last_id := 1\<rparr>))) = [msg1]"
proof -
  have k: "message_key msg2 = message_key msg1"
    by (simp add: msg1_def msg2_def message_key_def)
  have f: "\<forall>r \<in> set (messages empty_db). message_key r \<noteq> message_key msg1"
    by (simp add: empty_db_def)
  have n: "encrypted_body msg2 \<noteq> encrypted_body msg1" by (simp add: msg1_def msg2_def)
  have s: "saveMessage msg1 empty_db =
      Inr (empty_db\<lparr>messages := [stored 1 msg1], last_id := 1\<rparr>)"
    by (simp add: saveMessage_returns empty_db_def)
  from saveMessage_first_wins [OF k, of empty_db] f s
  have "saveMessage msg2 (empty_db\<lparr>messages := [stored 1 msg1], last_id := 1\<rparr>) =
      Inr (empty_db\<lparr>messages := [stored 1 msg1], last_id := 1\<rparr>) \<and>
    map MessageRow.truncate
     (filter (\<lambda>r. message_key r = message_key msg1)
        (messages (empty_db\<lparr>messages := [stored 1 msg1], last_id := 1\<rparr>))) = [msg1]"
    by auto
  with k n s show ?thesis by blast
qed

text \<open>
  C8. \<open>saveProfile\<close> for an account and then \<open>saveProfile\<close> for the same account with another
  public key, key version and display name: the stored profile has the second call's
  public key, key version and display name, and the registration timestamp it had after
  the first call, which is the first call's when the account was not stored before.
\<close>

theorem saveProfile_keeps_registered_at:
  assumes "account_id p2 = account_id p1"
  shows "map_option x25519_pubkey (profiles (saveProfile p2 (saveProfile p1 d)) (account_id p1))
           = Some (x25519_pubkey p2) \<and>
         map_option key_version (profiles (saveProfile p2 (saveProfile p1 d)) (account_id p1))
           = Some (key_version p2) \<and>
         map_option display_name (profiles (saveProfile p2 (saveProfile p1 d)) (account_id p1))
           = Some (display_name p2) \<and>
         map_option registered_at (profiles (saveProfile p2 (saveProfile p1 d)) (account_id p1))
           = map_option registered_at (profiles (saveProfile p1 d) (account_id p1)) \<and>
         (profiles d (account_id p1) = None \<longrightarrow>
            map_option registered_at (profiles (saveProfile p2 (saveProfile p1 d)) (account_id p1))
              = Some (registered_at p1))"
  using assms
  by (cases "profiles d (account_id p1)") (simp_all add: saveProfile_def upsertProfile_def)

theorem saveProfile_keeps_registered_at_witness:
  "account_id prof2 = account_id prof1 \<and>
   profiles empty_db (account_id prof1) = None \<and>
   registered_at prof2 \<noteq> registered_at prof1 \<and>
   map_option x25519_pubkey
     (profiles (saveProfile prof2 (saveProfile prof1 empty_db)) (account_id prof1)) = Some ''K2'' \<and>
   map_option key_version
     (profiles (saveProfile prof2 (saveProfile prof1 empty_db)) (account_id prof1)) = Some 2 \<and>
   map_option display_name
     (profiles (saveProfile prof2 (saveProfile prof1 empty_db)) (account_id prof1))
       = Some (Some ''Alice'') \<and>
   map_option registered_at
     (profiles (saveProfile prof2 (saveProfile prof1 empty_db)) (account_id prof1)) = Some ''1000''"
proof -
  have a: "account_id prof2 = account_id prof1" by (simp add: prof1_def prof2_def)
  have n: "profiles empty_db (account_id prof1) = None" by (simp add: empty_db_def)
  have v: "x25519_pubkey prof2 = ''K2''" "key_version prof2 = 2"
    "display_name prof2 = Some ''Alice''" "registered_at prof1 = ''1000''"
    "registered_at prof2 \<noteq> registered_at prof1"
    by (simp_all add: prof1_def prof2_def)
  note t = saveProfile_keeps_registered_at [OF a, of empty_db]
  have c1: "map_option x25519_pubkey
     (profiles (saveProfile prof2 (saveProfile prof1 empty_db)) (account_id prof1)) = Some ''K2''"
    using t v(1) by simp
  have c2: "map_option key_version
     (profiles (saveProfile prof2 (saveProfile prof1 empty_db)) (account_id prof1)) = Some 2"
    using t v(2) by simp
  have c3: "map_option display_name
     (profiles (saveProfile prof2 (saveProfile prof1 empty_db)) (account_id prof1))
       = Some (Some ''Alice'')"
    using t v(3) by simp
  from t have "profiles empty_db (account_id prof1) = None \<longrightarrow>
     map_option registered_at
       (profiles (saveProfile prof2 (saveProfile prof1 empty_db)) (account_id prof1))
         = Some (registered_at prof1)"
    by blast
  from this n have "map_option registered_at
     (profiles (saveProfile prof2 (saveProfile prof1 empty_db)) (account_id prof1))
       = Some (registered_at prof1)"
    by (rule mp)
  then have c4: "map_option registered_at
     (profiles (saveProfile prof2 (saveProfile prof1 empty_db)) (account_id prof1)) = Some ''1000''"
    by (simp only: v(4))
  from a n v(5) c1 c2 c3 c4 show ?thesis by blast
qed

section \<open>The parser on blocks of the declared shape\<close>












lemma recognized_not_malformed: "recognized rt b line = Some ev \<Longrightarrow> \<not> malformed rt (snd line)"
  by (auto simp: recognized_def malformed_def split: option.splits)



section \<open>The parser never writes the checkpoint\<close>

lemma sync_saveMessage: "saveMessage m d = Inr d' \<Longrightarrow> sync_state d' = sync_state d"
  by (auto simp: saveMessage_returns)

lemma sync_saveProfile: "sync_state (saveProfile p d) = sync_state d"
  by (simp add: saveProfile_def upsertProfile_def split: option.splits)

lemma sync_handle_item:
  "sync_state (snd (snd (handle_item tx bh ts tag item st))) = sync_state (snd st)"
  by (auto simp: handle_item_def sync_saveProfile split: sum.splits dest: sync_saveMessage)

lemma sync_for_items:
  "sync_state (snd (snd (for_items tx bh ts tag items st))) = sync_state (snd st)"
proof (induction items arbitrary: st)
  case Nil
  then show ?case by simp
next
  case (Cons item items)
  show ?case
  proof -
    obtain r st' where p: "handle_item tx bh ts tag item st = (r, st')" by (rule prod.exhaust)
    with sync_handle_item [of tx bh ts tag item st]
    have "sync_state (snd st') = sync_state (snd st)" by simp
    with p Cons.IH [of st'] show ?thesis by (cases r) simp_all
  qed
qed

lemma sync_try_body:
  "sync_state (snd (snd (try_body rt bh ts reo s st))) = sync_state (snd st)"
  by (simp add: try_body_def sync_for_items split: option.splits sum.splits)

lemma sync_handle_log:
  "sync_state (snd (snd (handle_log rt bh ts reo l st))) = sync_state (snd st)"
  by (simp add: handle_log_def sync_try_body split: json.splits)

lemma sync_for_logs:
  "sync_state (snd (snd (for_logs rt bh ts reo logs st))) = sync_state (snd st)"
proof (induction logs arbitrary: st)
  case Nil
  then show ?case by simp
next
  case (Cons l logs)
  show ?case
  proof -
    obtain r st' where p: "handle_log rt bh ts reo l st = (r, st')" by (rule prod.exhaust)
    with sync_handle_log [of rt bh ts reo l st]
    have "sync_state (snd st') = sync_state (snd st)" by simp
    with p Cons.IH [of st'] show ?thesis by (cases r) simp_all
  qed
qed

lemma sync_handle_reo:
  "sync_state (snd (snd (handle_reo rt bh ts reo st))) = sync_state (snd st)"
  by (simp add: handle_reo_def sync_for_logs split: sum.splits)

lemma sync_for_reos:
  "sync_state (snd (snd (for_reos rt bh ts reos st))) = sync_state (snd st)"
proof (induction reos arbitrary: st)
  case Nil
  then show ?case by simp
next
  case (Cons reo reos)
  show ?case
  proof -
    obtain r st' where p: "handle_reo rt bh ts reo st = (r, st')" by (rule prod.exhaust)
    with sync_handle_reo [of rt bh ts reo st]
    have "sync_state (snd st') = sync_state (snd st)" by simp
    with p Cons.IH [of st'] show ?thesis by (cases r) simp_all
  qed
qed

lemma sync_handle_shard:
  "sync_state (snd (snd (handle_shard rt bh ts shard st))) = sync_state (snd st)"
  by (simp add: handle_shard_def sync_for_reos split: sum.splits option.splits json.splits)

lemma sync_for_shards:
  "sync_state (snd (snd (for_shards rt bh ts shards st))) = sync_state (snd st)"
proof (induction shards arbitrary: st)
  case Nil
  then show ?case by simp
next
  case (Cons shard shards)
  show ?case
  proof -
    obtain r st' where p: "handle_shard rt bh ts shard st = (r, st')" by (rule prod.exhaust)
    with sync_handle_shard [of rt bh ts shard st]
    have "sync_state (snd st') = sync_state (snd st)" by simp
    with p Cons.IH [of st'] show ?thesis by (cases r) simp_all
  qed
qed

lemma sync_parseBlock: "sync_state (snd (parseBlock rt b d)) = sync_state d"
proof -
  have loop: "sync_state (snd (snd (for_shards rt bh ts shards (0, d)))) = sync_state d"
    for bh ts shards
    using sync_for_shards [of rt bh ts shards "(0, d)"] by simp
  have fin: "sync_state (snd (case r of (Some e, st) \<Rightarrow> (Inl e, snd st)
                                    | (None, st) \<Rightarrow> (Inr (fst st), snd st))) =
             sync_state (snd (snd r))" for r :: "error option \<times> pstate"
    by (cases r) (auto split: option.splits)
  show ?thesis
    unfolding parseBlock_def
    by (simp add: fin loop split: sum.splits)
qed

lemma refresh_tip_frame:
  "currentHeight (refresh_tip rt s) = currentHeight s \<and>
   database (refresh_tip rt s) = database s \<and>
   blocksProcessed (refresh_tip rt s) = blocksProcessed s \<and>
   skippedBlocks (refresh_tip rt s) = skippedBlocks s"
  by (simp add: refresh_tip_def split: prod.splits)

lemma refresh_tip_lake_frame:
  "currentHeight (refresh_tip_lake rt s) = currentHeight s \<and>
   database (refresh_tip_lake rt s) = database s \<and>
   blocksProcessed (refresh_tip_lake rt s) = blocksProcessed s \<and>
   skippedBlocks (refresh_tip_lake rt s) = skippedBlocks s"
  by (simp add: refresh_tip_lake_def split: prod.splits)

section \<open>The retry loop of the newer file\<close>

lemma fetchBlock_world:
  "snd (fetchBlock rt h w) = w\<lparr>sent := Suc (sent w), trace := trace w @ [GetBlock h]\<rparr>"
  by (simp add: fetchBlock_def fetch_def split: http_outcome.splits option.splits sum.splits)

lemma backoff_from_step:
  "a < MAX_RETRIES \<Longrightarrow>
   backoff_from h a =
     GetBlock h # (if a < MAX_RETRIES - 1 then [Sleep (RETRY_BASE_MS * 2 ^ a)] else [])
       @ backoff_from h (Suc a)"
  by (simp add: backoff_from_def upt_rec [of a])

lemma backoff_from_done: "\<not> a < MAX_RETRIES \<Longrightarrow> backoff_from h a = []"
  by (simp add: backoff_from_def)

lemma retry_from_done: "\<not> a < MAX_RETRIES \<Longrightarrow> retry_from rt h a w = (Inr JNull, w)"
  by (simp add: retry_from.simps)

lemma retry_from_data:
  "a < MAX_RETRIES \<Longrightarrow> fetchBlock rt h w = (Inr b, w') \<Longrightarrow> b \<noteq> JNull \<Longrightarrow>
   retry_from rt h a w = (Inr b, w')"
  by (subst retry_from.simps) simp

lemma retry_from_again:
  "a < MAX_RETRIES - 1 \<Longrightarrow> fetchBlock rt h w = (r, w') \<Longrightarrow> r = Inr JNull \<or> r = Inl e \<Longrightarrow>
   retry_from rt h a w = retry_from rt h (Suc a) (sleep (RETRY_BASE_MS * 2 ^ a) w')"
  by (subst retry_from.simps) auto

lemma retry_from_last:
  "a < MAX_RETRIES \<Longrightarrow> \<not> a < MAX_RETRIES - 1 \<Longrightarrow> fetchBlock rt h w = (r, w') \<Longrightarrow>
   retry_from rt h a w = (r, w')"
  by (subst retry_from.simps, cases r)
     (auto simp: retry_from_done split: if_splits)

lemma retry_from_cases:
  assumes "a < MAX_RETRIES" and "fetchBlock rt h w = (r, w')"
  shows "retry_from rt h a w = (r, w') \<and> (r = Inr JNull \<longrightarrow> \<not> a < MAX_RETRIES - 1) \<or>
         a < MAX_RETRIES - 1 \<and> (r = Inr JNull \<or> (\<exists>e. r = Inl e)) \<and>
           retry_from rt h a w = retry_from rt h (Suc a) (sleep (RETRY_BASE_MS * 2 ^ a) w')"
proof (cases "a < MAX_RETRIES - 1")
  case False
  with assms show ?thesis by (simp add: retry_from_last)
next
  case True
  show ?thesis
  proof (cases r)
    case (Inl e)
    with True assms retry_from_again [of a rt h w r w' e] show ?thesis by simp
  next
    case (Inr b)
    show ?thesis
    proof (cases "b = JNull")
      case True
      with \<open>a < MAX_RETRIES - 1\<close> Inr assms retry_from_again [of a rt h w r w'] show ?thesis
        by simp
    next
      case False
      with Inr assms retry_from_data [of a rt h w b w'] show ?thesis by simp
    qed
  qed
qed

lemma retry_from_trace:
  "MAX_RETRIES - a = n \<Longrightarrow>
   (\<exists>k. trace (snd (retry_from rt h a w)) = trace w @ take k (backoff_from h a)) \<and>
   sent (snd (retry_from rt h a w)) \<le> sent w + n \<and>
   (fst (retry_from rt h a w) = Inr JNull \<longrightarrow>
      trace (snd (retry_from rt h a w)) = trace w @ backoff_from h a) \<and>
   (0 < n \<longrightarrow> (\<exists>wl. retry_from rt h a w = fetchBlock rt h wl \<and> net wl = net w \<and>
                   sent w \<le> sent wl))"
proof (induction n arbitrary: a w)
  case 0
  then have "\<not> a < MAX_RETRIES" by simp
  then show ?case by (simp add: retry_from_done backoff_from_done)
next
  case (Suc n)
  then have a: "a < MAX_RETRIES" by simp
  obtain r w' where f: "fetchBlock rt h w = (r, w')" by (rule prod.exhaust)
  with fetchBlock_world [of rt h w]
  have w': "w' = w\<lparr>sent := Suc (sent w), trace := trace w @ [GetBlock h]\<rparr>" by simp
  from retry_from_cases [OF a f] show ?case
  proof
    assume last: "retry_from rt h a w = (r, w') \<and> (r = Inr JNull \<longrightarrow> \<not> a < MAX_RETRIES - 1)"
    have "trace w' = trace w @ take 1 (backoff_from h a)"
      by (simp add: w' backoff_from_step [OF a])
    moreover have "r = Inr JNull \<Longrightarrow> trace w' = trace w @ backoff_from h a"
    proof -
      assume "r = Inr JNull"
      with last a have "\<not> Suc a < MAX_RETRIES" by auto
      then have "backoff_from h (Suc a) = []" by (rule backoff_from_done)
      with last \<open>r = Inr JNull\<close> show ?thesis
        by (simp add: w' backoff_from_step [OF a])
    qed
    moreover have "\<exists>wl. retry_from rt h a w = fetchBlock rt h wl \<and> net wl = net w \<and>
        sent w \<le> sent wl"
      using last f by (intro exI [of _ w]) simp
    ultimately show ?thesis using last by (auto simp: w')
  next
    assume again: "a < MAX_RETRIES - 1 \<and> (r = Inr JNull \<or> (\<exists>e. r = Inl e)) \<and>
       retry_from rt h a w = retry_from rt h (Suc a) (sleep (RETRY_BASE_MS * 2 ^ a) w')"
    let ?w = "sleep (RETRY_BASE_MS * 2 ^ a) w'"
    from Suc.prems have m: "MAX_RETRIES - Suc a = n" by simp
    from again have "Suc a < MAX_RETRIES" by linarith
    with m have n: "0 < n" by linarith
    from Suc.IH [OF m, of ?w] obtain k where
      k: "trace (snd (retry_from rt h (Suc a) ?w)) = trace ?w @ take k (backoff_from h (Suc a))"
      and s: "sent (snd (retry_from rt h (Suc a) ?w)) \<le> sent ?w + n"
      and z: "fst (retry_from rt h (Suc a) ?w) = Inr JNull \<longrightarrow>
          trace (snd (retry_from rt h (Suc a) ?w)) = trace ?w @ backoff_from h (Suc a)"
      and l: "0 < n \<longrightarrow> (\<exists>wl. retry_from rt h (Suc a) ?w = fetchBlock rt h wl \<and>
                 net wl = net ?w \<and> sent ?w \<le> sent wl)"
      by blast
    have tw: "trace ?w = trace w @ [GetBlock h, Sleep (RETRY_BASE_MS * 2 ^ a)]"
      by (simp add: sleep_def w')
    have sw: "sent ?w = Suc (sent w)" "net ?w = net w" by (simp_all add: sleep_def w')
    have b: "backoff_from h a =
        [GetBlock h, Sleep (RETRY_BASE_MS * 2 ^ a)] @ backoff_from h (Suc a)"
      using again by (simp add: backoff_from_step [OF a])
    have "trace (snd (retry_from rt h a w)) = trace w @ take (k + 2) (backoff_from h a)"
      using again k by (simp add: tw b)
    then have "\<exists>k. trace (snd (retry_from rt h a w)) = trace w @ take k (backoff_from h a)" ..
    moreover have "sent (snd (retry_from rt h a w)) \<le> sent w + Suc n"
      using again s by (simp add: sw)
    moreover have "fst (retry_from rt h a w) = Inr JNull \<longrightarrow>
        trace (snd (retry_from rt h a w)) = trace w @ backoff_from h a"
      using again z by (simp add: tw b)
    moreover from l n obtain wl where "retry_from rt h (Suc a) ?w = fetchBlock rt h wl"
      "net wl = net ?w" "sent ?w \<le> sent wl" by blast
    then have "\<exists>wl. retry_from rt h a w = fetchBlock rt h wl \<and> net wl = net w \<and>
        sent w \<le> sent wl"
      using again by (intro exI [of _ wl]) (simp add: sw)
    ultimately show ?thesis by blast
  qed
qed

section \<open>Isolation of a malformed event line\<close>





lemma sample_parse_bad: "sample_parse txt_bad = None"
  by (simp add: sample_parse_def txt_msg_def txt_key_def txt_bad_def txt_err_def txt_tip_def
      txt_blk_def txt_err_null_def)










section \<open>The loop after an error\<close>

lemma process_height_error:
  assumes "\<not> currentHeight s > latestKnownHeight s"
    and "fetchBlockWithRetry rt (currentHeight s) (io s) = (Inl e, w) \<or>
         (\<exists>b d. fetchBlockWithRetry rt (currentHeight s) (io s) = (Inr b, w) \<and> b \<noteq> JNull \<and>
            parseBlock rt b (database s) = (Inl e, d))"
  shows "currentHeight (process_height rt s) = currentHeight s \<and>
         sync_state (database (process_height rt s)) = sync_state (database s) \<and>
         blocksProcessed (process_height rt s) = blocksProcessed s \<and>
         skippedBlocks (process_height rt s) = skippedBlocks s \<and>
         io (process_height rt s) = sleep 5000 w"
proof -
  from assms(2) show ?thesis
  proof
    assume "fetchBlockWithRetry rt (currentHeight s) (io s) = (Inl e, w)"
    with assms(1) show ?thesis by (simp add: process_height_def)
  next
    assume "\<exists>b d. fetchBlockWithRetry rt (currentHeight s) (io s) = (Inr b, w) \<and> b \<noteq> JNull \<and>
            parseBlock rt b (database s) = (Inl e, d)"
    then obtain b d where f: "fetchBlockWithRetry rt (currentHeight s) (io s) = (Inr b, w)"
      and b: "b \<noteq> JNull" and p: "parseBlock rt b (database s) = (Inl e, d)" by blast
    from sync_parseBlock [of rt b "database s"] p
    have "sync_state d = sync_state (database s)" by simp
    with assms(1) f b p show ?thesis by (simp add: process_height_def)
  qed
qed

lemma process_height_lake_error:
  assumes "\<not> currentHeight s > latestKnownHeight s"
    and "fetchBlockWithRetry_lake rt (currentHeight s) (io s) = (Inl e, w) \<or>
         (\<exists>b d. fetchBlockWithRetry_lake rt (currentHeight s) (io s) = (Inr b, w) \<and> b \<noteq> JNull \<and>
            parseBlock rt b (database s) = (Inl e, d))"
  shows "currentHeight (process_height_lake rt s) = currentHeight s \<and>
         sync_state (database (process_height_lake rt s)) = sync_state (database s) \<and>
         blocksProcessed (process_height_lake rt s) = blocksProcessed s \<and>
         skippedBlocks (process_height_lake rt s) = skippedBlocks s \<and>
         io (process_height_lake rt s) = sleep 5000 w"
proof -
  from assms(2) show ?thesis
  proof
    assume "fetchBlockWithRetry_lake rt (currentHeight s) (io s) = (Inl e, w)"
    with assms(1) show ?thesis by (simp add: process_height_lake_def)
  next
    assume "\<exists>b d. fetchBlockWithRetry_lake rt (currentHeight s) (io s) = (Inr b, w) \<and> b \<noteq> JNull \<and>
            parseBlock rt b (database s) = (Inl e, d)"
    then obtain b d where f: "fetchBlockWithRetry_lake rt (currentHeight s) (io s) = (Inr b, w)"
      and b: "b \<noteq> JNull" and p: "parseBlock rt b (database s) = (Inl e, d)" by blast
    from sync_parseBlock [of rt b "database s"] p
    have "sync_state d = sync_state (database s)" by simp
    with assms(1) f b p show ?thesis by (simp add: process_height_lake_def)
  qed
qed

lemma checkpoint_of_sync:
  "sync_state d = sync_state d' \<Longrightarrow> getLastBlockHeight d = getLastBlockHeight d'"
  by (simp add: getLastBlockHeight_def)

text \<open>
  C1. An iteration that is not at the tip and in which \<open>fetchBlockWithRetry\<close> throws (a fetch
  error after the last attempt) or \<open>parseBlock\<close> throws: the loop sleeps the fixed 5000 ms
  and nothing else; \<open>currentHeight\<close> is not incremented and the checkpoint is not written,
  so the next iteration works on the same height. In both files.
\<close>

theorem error_retries_same_height:
  "(\<not> currentHeight (refresh_tip rt s0) > latestKnownHeight (refresh_tip rt s0) \<and>
    (fetchBlockWithRetry rt (currentHeight s0) (io (refresh_tip rt s0)) = (Inl e, w) \<or>
     (\<exists>b d. fetchBlockWithRetry rt (currentHeight s0) (io (refresh_tip rt s0)) = (Inr b, w) \<and>
        b \<noteq> JNull \<and> parseBlock rt b (database s0) = (Inl e, d)))
    \<longrightarrow> currentHeight (iteration rt s0) = currentHeight s0 \<and>
        sync_state (database (iteration rt s0)) = sync_state (database s0) \<and>
        getLastBlockHeight (database (iteration rt s0)) = getLastBlockHeight (database s0) \<and>
        io (iteration rt s0) = sleep 5000 w) \<and>
   (\<not> currentHeight (refresh_tip_lake rt s0) > latestKnownHeight (refresh_tip_lake rt s0) \<and>
    (fetchBlockWithRetry_lake rt (currentHeight s0) (io (refresh_tip_lake rt s0)) = (Inl e, w) \<or>
     (\<exists>b d. fetchBlockWithRetry_lake rt (currentHeight s0) (io (refresh_tip_lake rt s0)) = (Inr b, w) \<and>
        b \<noteq> JNull \<and> parseBlock rt b (database s0) = (Inl e, d)))
    \<longrightarrow> currentHeight (iteration_lake rt s0) = currentHeight s0 \<and>
        sync_state (database (iteration_lake rt s0)) = sync_state (database s0) \<and>
        getLastBlockHeight (database (iteration_lake rt s0)) = getLastBlockHeight (database s0) \<and>
        io (iteration_lake rt s0) = sleep 5000 w)"
proof (intro conjI impI)
  assume h: "\<not> currentHeight (refresh_tip rt s0) > latestKnownHeight (refresh_tip rt s0) \<and>
    (fetchBlockWithRetry rt (currentHeight s0) (io (refresh_tip rt s0)) = (Inl e, w) \<or>
     (\<exists>b d. fetchBlockWithRetry rt (currentHeight s0) (io (refresh_tip rt s0)) = (Inr b, w) \<and>
        b \<noteq> JNull \<and> parseBlock rt b (database s0) = (Inl e, d)))"
  let ?s = "refresh_tip rt s0"
  have fr: "currentHeight ?s = currentHeight s0" "database ?s = database s0"
    using refresh_tip_frame [of rt s0] by simp_all
  from h have "\<not> currentHeight ?s > latestKnownHeight ?s" by simp
  moreover from h have "fetchBlockWithRetry rt (currentHeight ?s) (io ?s) = (Inl e, w) \<or>
     (\<exists>b d. fetchBlockWithRetry rt (currentHeight ?s) (io ?s) = (Inr b, w) \<and> b \<noteq> JNull \<and>
        parseBlock rt b (database ?s) = (Inl e, d))"
    by (simp add: fr)
  ultimately have r: "currentHeight (process_height rt ?s) = currentHeight ?s \<and>
         sync_state (database (process_height rt ?s)) = sync_state (database ?s) \<and>
         blocksProcessed (process_height rt ?s) = blocksProcessed ?s \<and>
         skippedBlocks (process_height rt ?s) = skippedBlocks ?s \<and>
         io (process_height rt ?s) = sleep 5000 w"
    by (rule process_height_error)
  from r show "currentHeight (iteration rt s0) = currentHeight s0"
    by (simp add: iteration_def fr)
  from r show sy: "sync_state (database (iteration rt s0)) = sync_state (database s0)"
    by (simp add: iteration_def fr)
  from sy show "getLastBlockHeight (database (iteration rt s0)) = getLastBlockHeight (database s0)"
    by (rule checkpoint_of_sync)
  from r show "io (iteration rt s0) = sleep 5000 w" by (simp add: iteration_def)
next
  assume h: "\<not> currentHeight (refresh_tip_lake rt s0) > latestKnownHeight (refresh_tip_lake rt s0) \<and>
    (fetchBlockWithRetry_lake rt (currentHeight s0) (io (refresh_tip_lake rt s0)) = (Inl e, w) \<or>
     (\<exists>b d. fetchBlockWithRetry_lake rt (currentHeight s0) (io (refresh_tip_lake rt s0)) = (Inr b, w) \<and>
        b \<noteq> JNull \<and> parseBlock rt b (database s0) = (Inl e, d)))"
  let ?s = "refresh_tip_lake rt s0"
  have fr: "currentHeight ?s = currentHeight s0" "database ?s = database s0"
    using refresh_tip_lake_frame [of rt s0] by simp_all
  from h have "\<not> currentHeight ?s > latestKnownHeight ?s" by simp
  moreover from h have "fetchBlockWithRetry_lake rt (currentHeight ?s) (io ?s) = (Inl e, w) \<or>
     (\<exists>b d. fetchBlockWithRetry_lake rt (currentHeight ?s) (io ?s) = (Inr b, w) \<and> b \<noteq> JNull \<and>
        parseBlock rt b (database ?s) = (Inl e, d))"
    by (simp add: fr)
  ultimately have r: "currentHeight (process_height_lake rt ?s) = currentHeight ?s \<and>
         sync_state (database (process_height_lake rt ?s)) = sync_state (database ?s) \<and>
         blocksProcessed (process_height_lake rt ?s) = blocksProcessed ?s \<and>
         skippedBlocks (process_height_lake rt ?s) = skippedBlocks ?s \<and>
         io (process_height_lake rt ?s) = sleep 5000 w"
    by (rule process_height_lake_error)
  from r show "currentHeight (iteration_lake rt s0) = currentHeight s0"
    by (simp add: iteration_lake_def fr)
  from r show sy: "sync_state (database (iteration_lake rt s0)) = sync_state (database s0)"
    by (simp add: iteration_lake_def fr)
  from sy show "getLastBlockHeight (database (iteration_lake rt s0)) = getLastBlockHeight (database s0)"
    by (rule checkpoint_of_sync)
  from r show "io (iteration_lake rt s0) = sleep 5000 w" by (simp add: iteration_lake_def)
qed

lemma refresh_state_at: "refresh_tip rt (state_at h t r) = state_at h t r"
  by (simp add: refresh_tip_def state_at_def)

lemma refresh_lake_state_at: "refresh_tip_lake rt (state_at h t r) = state_at h t r"
  by (simp add: refresh_tip_lake_def state_at_def)

lemma eval_retry_rejected:
  "fetchBlockWithRetry rt0 500 (world_of Rejected) =
     (Inl NetworkError,
      \<lparr>net = (\<lambda>n. Rejected), sent = 3,
       trace = [GetBlock 500, Sleep 1000, GetBlock 500, Sleep 2000, GetBlock 500]\<rparr>)"
  by (simp add: fetchBlockWithRetry_def retry_from.simps fetchBlock_def fetch_def sleep_def
      world_of_def MAX_RETRIES_def RETRY_BASE_MS_def)

lemma eval_retry_lake_rejected:
  "fetchBlockWithRetry_lake rt0 500 (world_of Rejected) =
     (Inl NetworkError,
      \<lparr>net = (\<lambda>n. Rejected), sent = 3,
       trace = [GetBlock 500, Sleep 500, GetBlock 500, Sleep 1000, GetBlock 500]\<rparr>)"
  by (simp add: fetchBlockWithRetry_lake_def retry_from_lake.simps fetchBlock_lake_def fetch_def
      sleep_def world_of_def MAX_RETRIES_def RETRY_BASE_MS_lake_def)

lemma sample_parse_empty: "sample_parse ''{}'' = Some (JObj [])"
  by (simp add: sample_parse_def txt_msg_def txt_key_def txt_err_def txt_tip_def txt_blk_def)

lemma eval_retry_empty_object:
  "fetchBlockWithRetry rt0 500 (world_of (Response 200 (Some ''{}''))) =
     (Inr (JObj []),
      \<lparr>net = (\<lambda>n. Response 200 (Some ''{}'')), sent = 1, trace = [GetBlock 500]\<rparr>)"
  by (simp add: fetchBlockWithRetry_def retry_from.simps fetchBlock_def fetch_def sleep_def
      world_of_def MAX_RETRIES_def RETRY_BASE_MS_def rt0_def sample_parse_empty)

lemma eval_parse_empty_object: "parseBlock rt0 (JObj []) empty_db = (Inl TypeError, empty_db)"
  by (simp add: parseBlock_def)

theorem error_retries_same_height_witness:
  "fetchBlockWithRetry rt0 500 (io (state_at 500 1000 Rejected)) =
     (Inl NetworkError,
      \<lparr>net = (\<lambda>n. Rejected), sent = 3,
       trace = [GetBlock 500, Sleep 1000, GetBlock 500, Sleep 2000, GetBlock 500]\<rparr>) \<and>
   currentHeight (iteration rt0 (state_at 500 1000 Rejected)) = 500 \<and>
   getLastBlockHeight (database (iteration rt0 (state_at 500 1000 Rejected))) = Some 0 \<and>
   trace (io (iteration rt0 (state_at 500 1000 Rejected))) =
     [GetBlock 500, Sleep 1000, GetBlock 500, Sleep 2000, GetBlock 500, Sleep 5000] \<and>
   parseBlock rt0 (JObj []) empty_db = (Inl TypeError, empty_db) \<and>
   currentHeight (iteration rt0 (state_at 500 1000 (Response 200 (Some ''{}'')))) = 500 \<and>
   getLastBlockHeight (database (iteration rt0 (state_at 500 1000 (Response 200 (Some ''{}''))))) = Some 0 \<and>
   trace (io (iteration rt0 (state_at 500 1000 (Response 200 (Some ''{}''))))) =
     [GetBlock 500, Sleep 5000] \<and>
   currentHeight (iteration_lake rt0 (state_at 500 1000 Rejected)) = 500 \<and>
   trace (io (iteration_lake rt0 (state_at 500 1000 Rejected))) =
     [GetBlock 500, Sleep 500, GetBlock 500, Sleep 1000, GetBlock 500, Sleep 5000]"
proof -
  let ?w3 = "\<lparr>net = (\<lambda>n. Rejected), sent = 3,
       trace = [GetBlock 500, Sleep 1000, GetBlock 500, Sleep 2000, GetBlock 500]\<rparr>"
  let ?l3 = "\<lparr>net = (\<lambda>n. Rejected), sent = 3,
       trace = [GetBlock 500, Sleep 500, GetBlock 500, Sleep 1000, GetBlock 500]\<rparr>"
  let ?w1 = "\<lparr>net = (\<lambda>n. Response 200 (Some ''{}'')), sent = 1, trace = [GetBlock 500]\<rparr>"
  have c0: "getLastBlockHeight empty_db = Some 0"
    by (simp add: getLastBlockHeight_def empty_db_def)
  have f1: "fetchBlockWithRetry rt0 500 (io (state_at 500 1000 Rejected)) = (Inl NetworkError, ?w3)"
    by (simp add: state_at_def eval_retry_rejected)
  have a1: "currentHeight (iteration rt0 (state_at 500 1000 Rejected)) = 500 \<and>
      getLastBlockHeight (database (iteration rt0 (state_at 500 1000 Rejected))) = Some 0 \<and>
      io (iteration rt0 (state_at 500 1000 Rejected)) = sleep 5000 ?w3"
    using error_retries_same_height [of rt0 "state_at 500 1000 Rejected" NetworkError ?w3] f1
    by (simp add: refresh_state_at) (simp add: state_at_def c0)
  have f2: "fetchBlockWithRetry rt0 500 (io (state_at 500 1000 (Response 200 (Some ''{}'')))) =
      (Inr (JObj []), ?w1)"
    by (simp add: state_at_def eval_retry_empty_object)
  have a2: "currentHeight (iteration rt0 (state_at 500 1000 (Response 200 (Some ''{}'')))) = 500 \<and>
      getLastBlockHeight (database (iteration rt0 (state_at 500 1000 (Response 200 (Some ''{}''))))) = Some 0 \<and>
      io (iteration rt0 (state_at 500 1000 (Response 200 (Some ''{}'')))) = sleep 5000 ?w1"
    using error_retries_same_height
      [of rt0 "state_at 500 1000 (Response 200 (Some ''{}''))" TypeError ?w1] f2
      eval_parse_empty_object
    by (simp add: refresh_state_at) (simp add: state_at_def c0)
  have f3: "fetchBlockWithRetry_lake rt0 500 (io (state_at 500 1000 Rejected)) =
      (Inl NetworkError, ?l3)"
    by (simp add: state_at_def eval_retry_lake_rejected)
  have a3: "currentHeight (iteration_lake rt0 (state_at 500 1000 Rejected)) = 500 \<and>
      io (iteration_lake rt0 (state_at 500 1000 Rejected)) = sleep 5000 ?l3"
    using error_retries_same_height [of rt0 "state_at 500 1000 Rejected" NetworkError ?l3] f3
    by (simp add: refresh_lake_state_at) (simp add: state_at_def)
  from f1 a1 a2 a3 eval_parse_empty_object show ?thesis by (simp add: sleep_def)
qed

section \<open>The loop on a missing block\<close>

text \<open>
  C6. An iteration that is not at the tip and in which \<open>fetchBlockWithRetry\<close> returns null
  for the current height: the checkpoint is set to \<open>currentHeight\<close>, \<open>currentHeight\<close> is
  incremented, the block counts as skipped, and the world is the one the fetch left, so
  the error delay of the \<^verbatim>\<open>catch\<close> is not taken. In the newer file the null comes out only
  after every attempt of the schedule was made. In both files.
\<close>

theorem no_data_skips_height:
  "(\<not> currentHeight (refresh_tip rt s0) > latestKnownHeight (refresh_tip rt s0) \<and>
    fetchBlockWithRetry rt (currentHeight s0) (io (refresh_tip rt s0)) = (Inr JNull, w)
    \<longrightarrow> currentHeight (iteration rt s0) = currentHeight s0 + 1 \<and>
        database (iteration rt s0) = setLastBlockHeight (currentHeight s0) (database s0) \<and>
        getLastBlockHeight (database (iteration rt s0)) = Some (currentHeight s0) \<and>
        skippedBlocks (iteration rt s0) = Suc (skippedBlocks s0) \<and>
        io (iteration rt s0) = w \<and>
        trace w = trace (io (refresh_tip rt s0)) @ backoff_from (currentHeight s0) 0) \<and>
   (\<not> currentHeight (refresh_tip_lake rt s0) > latestKnownHeight (refresh_tip_lake rt s0) \<and>
    fetchBlockWithRetry_lake rt (currentHeight s0) (io (refresh_tip_lake rt s0)) = (Inr JNull, w)
    \<longrightarrow> currentHeight (iteration_lake rt s0) = currentHeight s0 + 1 \<and>
        database (iteration_lake rt s0) = setLastBlockHeight (currentHeight s0) (database s0) \<and>
        getLastBlockHeight (database (iteration_lake rt s0)) = Some (currentHeight s0) \<and>
        skippedBlocks (iteration_lake rt s0) = Suc (skippedBlocks s0) \<and>
        io (iteration_lake rt s0) = w)"
proof (intro conjI impI)
  assume h: "\<not> currentHeight (refresh_tip rt s0) > latestKnownHeight (refresh_tip rt s0) \<and>
    fetchBlockWithRetry rt (currentHeight s0) (io (refresh_tip rt s0)) = (Inr JNull, w)"
  let ?s = "refresh_tip rt s0"
  have fr: "currentHeight ?s = currentHeight s0" "database ?s = database s0"
    "skippedBlocks ?s = skippedBlocks s0"
    using refresh_tip_frame [of rt s0] by simp_all
  from h have p: "process_height rt ?s =
      ?s\<lparr>skippedBlocks := Suc (skippedBlocks ?s),
         database := setLastBlockHeight (currentHeight ?s) (database ?s),
         currentHeight := currentHeight ?s + 1, io := w\<rparr>"
    by (simp add: process_height_def fr)
  from p show "currentHeight (iteration rt s0) = currentHeight s0 + 1"
    by (simp add: iteration_def fr)
  from p show d: "database (iteration rt s0) = setLastBlockHeight (currentHeight s0) (database s0)"
    by (simp add: iteration_def fr)
  from d show "getLastBlockHeight (database (iteration rt s0)) = Some (currentHeight s0)"
    by (simp add: get_after_set)
  from p show "skippedBlocks (iteration rt s0) = Suc (skippedBlocks s0)"
    by (simp add: iteration_def fr)
  from p show "io (iteration rt s0) = w" by (simp add: iteration_def)
  from h have "fst (retry_from rt (currentHeight s0) 0 (io ?s)) = Inr JNull"
    and "snd (retry_from rt (currentHeight s0) 0 (io ?s)) = w"
    by (simp_all add: fetchBlockWithRetry_def)
  with retry_from_trace [of 0 MAX_RETRIES rt "currentHeight s0" "io ?s"]
  show "trace w = trace (io ?s) @ backoff_from (currentHeight s0) 0" by simp
next
  assume h: "\<not> currentHeight (refresh_tip_lake rt s0) > latestKnownHeight (refresh_tip_lake rt s0) \<and>
    fetchBlockWithRetry_lake rt (currentHeight s0) (io (refresh_tip_lake rt s0)) = (Inr JNull, w)"
  let ?s = "refresh_tip_lake rt s0"
  have fr: "currentHeight ?s = currentHeight s0" "database ?s = database s0"
    "skippedBlocks ?s = skippedBlocks s0"
    using refresh_tip_lake_frame [of rt s0] by simp_all
  from h have p: "process_height_lake rt ?s =
      ?s\<lparr>skippedBlocks := Suc (skippedBlocks ?s),
         database := setLastBlockHeight (currentHeight ?s) (database ?s),
         currentHeight := currentHeight ?s + 1, io := w\<rparr>"
    by (simp add: process_height_lake_def fr)
  from p show "currentHeight (iteration_lake rt s0) = currentHeight s0 + 1"
    by (simp add: iteration_lake_def fr)
  from p show d: "database (iteration_lake rt s0) = setLastBlockHeight (currentHeight s0) (database s0)"
    by (simp add: iteration_lake_def fr)
  from d show "getLastBlockHeight (database (iteration_lake rt s0)) = Some (currentHeight s0)"
    by (simp add: get_after_set)
  from p show "skippedBlocks (iteration_lake rt s0) = Suc (skippedBlocks s0)"
    by (simp add: iteration_lake_def fr)
  from p show "io (iteration_lake rt s0) = w" by (simp add: iteration_lake_def)
qed

lemma eval_retry_404:
  "fetchBlockWithRetry rt0 500 (world_of (Response 404 (Some []))) =
     (Inr JNull,
      \<lparr>net = (\<lambda>n. Response 404 (Some [])), sent = 3,
       trace = [GetBlock 500, Sleep 1000, GetBlock 500, Sleep 2000, GetBlock 500]\<rparr>)"
  by (simp add: fetchBlockWithRetry_def retry_from.simps fetchBlock_def fetch_def sleep_def
      world_of_def MAX_RETRIES_def RETRY_BASE_MS_def)

lemma eval_retry_lake_404:
  "fetchBlockWithRetry_lake rt0 500 (world_of (Response 404 (Some []))) =
     (Inr JNull,
      \<lparr>net = (\<lambda>n. Response 404 (Some [])), sent = 1, trace = [GetBlock 500]\<rparr>)"
  by (simp add: fetchBlockWithRetry_lake_def retry_from_lake.simps fetchBlock_lake_def fetch_def
      sleep_def world_of_def MAX_RETRIES_def RETRY_BASE_MS_lake_def)

theorem no_data_skips_height_witness:
  "fetchBlockWithRetry rt0 500 (io (state_at 500 1000 (Response 404 (Some [])))) =
     (Inr JNull,
      \<lparr>net = (\<lambda>n. Response 404 (Some [])), sent = 3,
       trace = [GetBlock 500, Sleep 1000, GetBlock 500, Sleep 2000, GetBlock 500]\<rparr>) \<and>
   currentHeight (iteration rt0 (state_at 500 1000 (Response 404 (Some [])))) = 501 \<and>
   getLastBlockHeight (database (iteration rt0 (state_at 500 1000 (Response 404 (Some []))))) =
     Some 500 \<and>
   trace (io (iteration rt0 (state_at 500 1000 (Response 404 (Some []))))) =
     [GetBlock 500, Sleep 1000, GetBlock 500, Sleep 2000, GetBlock 500] \<and>
   currentHeight (iteration_lake rt0 (state_at 500 1000 (Response 404 (Some [])))) = 501 \<and>
   getLastBlockHeight (database (iteration_lake rt0 (state_at 500 1000 (Response 404 (Some []))))) =
     Some 500 \<and>
   trace (io (iteration_lake rt0 (state_at 500 1000 (Response 404 (Some []))))) = [GetBlock 500]"
proof -
  let ?r = "Response 404 (Some [])"
  let ?w3 = "\<lparr>net = (\<lambda>n. ?r), sent = 3,
       trace = [GetBlock 500, Sleep 1000, GetBlock 500, Sleep 2000, GetBlock 500]\<rparr>"
  let ?w1 = "\<lparr>net = (\<lambda>n. ?r), sent = 1, trace = [GetBlock 500]\<rparr>"
  have f1: "fetchBlockWithRetry rt0 500 (io (state_at 500 1000 ?r)) = (Inr JNull, ?w3)"
    by (simp add: state_at_def eval_retry_404)
  have f2: "fetchBlockWithRetry_lake rt0 500 (io (state_at 500 1000 ?r)) = (Inr JNull, ?w1)"
    by (simp add: state_at_def eval_retry_lake_404)
  let ?S = "state_at 500 1000 ?r"
  have s: "currentHeight ?S = 500" by (simp add: state_at_def)
  note t = no_data_skips_height [of rt0 ?S]
  have "\<not> currentHeight (refresh_tip rt0 ?S) > latestKnownHeight (refresh_tip rt0 ?S) \<and>
      fetchBlockWithRetry rt0 (currentHeight ?S) (io (refresh_tip rt0 ?S)) = (Inr JNull, ?w3)"
    using f1 by (simp add: refresh_state_at s) (simp add: state_at_def)
  with conjunct1 [OF t, of ?w3]
  have c1: "currentHeight (iteration rt0 ?S) = currentHeight ?S + 1 \<and>
        database (iteration rt0 ?S) = setLastBlockHeight (currentHeight ?S) (database ?S) \<and>
        getLastBlockHeight (database (iteration rt0 ?S)) = Some (currentHeight ?S) \<and>
        skippedBlocks (iteration rt0 ?S) = Suc (skippedBlocks ?S) \<and>
        io (iteration rt0 ?S) = ?w3 \<and>
        trace ?w3 = trace (io (refresh_tip rt0 ?S)) @ backoff_from (currentHeight ?S) 0"
    by (rule mp)
  from c1 have "currentHeight (iteration rt0 ?S) = currentHeight ?S + 1" by blast
  then have h1: "currentHeight (iteration rt0 ?S) = 501" by (simp add: s)
  from c1 have "getLastBlockHeight (database (iteration rt0 ?S)) = Some (currentHeight ?S)"
    by blast
  then have g1: "getLastBlockHeight (database (iteration rt0 ?S)) = Some 500" by (simp only: s)
  from c1 have i1: "io (iteration rt0 ?S) = ?w3" by blast
  have "\<not> currentHeight (refresh_tip_lake rt0 ?S) > latestKnownHeight (refresh_tip_lake rt0 ?S) \<and>
      fetchBlockWithRetry_lake rt0 (currentHeight ?S) (io (refresh_tip_lake rt0 ?S)) =
        (Inr JNull, ?w1)"
    using f2 by (simp add: refresh_lake_state_at s) (simp add: state_at_def)
  with conjunct2 [OF t, of ?w1]
  have c2: "currentHeight (iteration_lake rt0 ?S) = currentHeight ?S + 1 \<and>
        database (iteration_lake rt0 ?S) = setLastBlockHeight (currentHeight ?S) (database ?S) \<and>
        getLastBlockHeight (database (iteration_lake rt0 ?S)) = Some (currentHeight ?S) \<and>
        skippedBlocks (iteration_lake rt0 ?S) = Suc (skippedBlocks ?S) \<and>
        io (iteration_lake rt0 ?S) = ?w1"
    by (rule mp)
  from c2 have "currentHeight (iteration_lake rt0 ?S) = currentHeight ?S + 1" by blast
  then have h2: "currentHeight (iteration_lake rt0 ?S) = 501" by (simp add: s)
  from c2 have "getLastBlockHeight (database (iteration_lake rt0 ?S)) = Some (currentHeight ?S)"
    by blast
  then have g2: "getLastBlockHeight (database (iteration_lake rt0 ?S)) = Some 500"
    by (simp only: s)
  from c2 have i2: "io (iteration_lake rt0 ?S) = ?w1" by blast
  from f1 h1 g1 i1 h2 g2 i2 show ?thesis by simp
qed

section \<open>The start height\<close>

lemma sample_parse_tip: "sample_parse txt_tip = Some val_tip"
  by (simp add: sample_parse_def txt_msg_def txt_key_def txt_err_def txt_tip_def)

lemma eval_tip:
  "JSON_parse rt = sample_parse \<Longrightarrow>
   fetchLatestBlockHeight rt l (world_of (Response 200 (Some txt_tip))) =
     (500, \<lparr>net = (\<lambda>n. Response 200 (Some txt_tip)), sent = 1, trace = [GetTip]\<rparr>)"
  by (simp add: fetchLatestBlockHeight_def fetch_def world_of_def ok_def
      sample_parse_tip tip_of_def val_tip_def)

lemma eval_tip_lake:
  "JSON_parse rt = sample_parse \<Longrightarrow>
   fetchLatestBlockHeight_lake rt l (world_of (Response 200 (Some txt_tip))) =
     (500, \<lparr>net = (\<lambda>n. Response 200 (Some txt_tip)), sent = 1, trace = [GetTip]\<rparr>)"
  by (simp add: fetchLatestBlockHeight_lake_def fetch_def world_of_def ok_def
      sample_parse_tip tip_of_lake_def val_tip_def)

lemma parse_rt0: "JSON_parse rt0 = sample_parse"
  by (simp add: rt0_def)

lemma parse_rt_start_0: "JSON_parse rt_start_0 = sample_parse"
  by (simp add: rt_start_0_def)

lemma String_num_0: "String_num 0 = ''0''"
  by (simp add: String_num_def digits.simps digit_char_def)

lemma parseInt_0: "parseInt ''0'' = Some 0"
  using parseInt_String_num [of 0] by (simp only: String_num_0)

lemma start_from_env_rt0: "start_from_env rt0 = None"
  by (simp add: start_from_env_def rt0_def)

lemma start_from_env_zero: "start_from_env rt_start_0 = None"
  by (simp add: start_from_env_def parseInt_0 rt_start_0_def)

lemma checkpoint_empty: "getLastBlockHeight empty_db = Some 0"
  by (simp add: getLastBlockHeight_def empty_db_def)

lemma eval_tip_rejected:
  "fetchLatestBlockHeight rt l (world_of Rejected) =
     (l, \<lparr>net = (\<lambda>n. Rejected), sent = 1, trace = [GetTip]\<rparr>)"
  by (simp add: fetchLatestBlockHeight_def fetch_def world_of_def)

lemma eval_tip_lake_rejected:
  "fetchLatestBlockHeight_lake rt l (world_of Rejected) =
     (l, \<lparr>net = (\<lambda>n. Rejected), sent = 1, trace = [GetTip]\<rparr>)"
  by (simp add: fetchLatestBlockHeight_lake_def fetch_def world_of_def)

text \<open>
  C9, as stated, fails where a checkpoint of 0 is stored: the start height is then not
  \<open>0 + 1\<close> but the tip (here 500, no \<^verbatim>\<open>START_BLOCK\<close>); \<^verbatim>\<open>START_BLOCK=0\<close> is provided and not
  used; and with no checkpoint, no \<^verbatim>\<open>START_BLOCK\<close> and a tip query that fails, a fresh
  process starts at height 0, the initial value of \<open>latestKnownHeight\<close>, which is no chain
  tip.
\<close>

theorem start_height_checkpoint_zero:
  "sync_state (setLastBlockHeight 0 empty_db) ''last_block_height'' = Some ''0'' \<and>
   fst (getStartBlockHeight rt0 (setLastBlockHeight 0 empty_db) 0
          (world_of (Response 200 (Some txt_tip)))) = 500 \<and>
   fst (getStartBlockHeight_lake rt0 (setLastBlockHeight 0 empty_db) 0
          (world_of (Response 200 (Some txt_tip)))) = 500 \<and>
   fst (getStartBlockHeight rt0 (setLastBlockHeight 0 empty_db) 0
          (world_of (Response 200 (Some txt_tip)))) \<noteq> 0 + 1 \<and>
   env_START_BLOCK rt_start_0 = Some ''0'' \<and>
   fst (getStartBlockHeight rt_start_0 empty_db 0
          (world_of (Response 200 (Some txt_tip)))) = 500 \<and>
   fst (getStartBlockHeight rt0 empty_db 0 (world_of Rejected)) = 0 \<and>
   fst (getStartBlockHeight_lake rt0 empty_db 0 (world_of Rejected)) = 0"
  by (simp add: getStartBlockHeight_def getStartBlockHeight_lake_def get_after_set
      checkpoint_empty start_from_env_rt0 start_from_env_zero
      eval_tip [OF parse_rt0] eval_tip_lake [OF parse_rt0] eval_tip [OF parse_rt_start_0]
      eval_tip_rejected eval_tip_lake_rejected)
     (simp add: setLastBlockHeight_def String_num_0 rt_start_0_def)

lemma start_from_env_valid:
  "env_START_BLOCK rt = Some str \<Longrightarrow> parseInt str = Some n \<Longrightarrow> 0 < n \<Longrightarrow>
   start_from_env rt = Some n"
  by (auto simp: start_from_env_def parseInt_def)

lemma start_from_env_invalid:
  "\<forall>str n. env_START_BLOCK rt = Some str \<and> parseInt str = Some n \<longrightarrow> \<not> 0 < n \<Longrightarrow>
   start_from_env rt = None"
proof (cases "env_START_BLOCK rt")
  case None
  then show ?thesis by (simp add: start_from_env_def)
next
  case (Some str)
  assume "\<forall>str n. env_START_BLOCK rt = Some str \<and> parseInt str = Some n \<longrightarrow> \<not> 0 < n"
  with Some have "above_zero (parseInt str) = None"
    by (cases "parseInt str") auto
  with Some show ?thesis by (simp add: start_from_env_def)
qed

lemma tip_of_height:
  assumes "get_prop data ''error'' = Inr err" and "\<not> truthy err"
    and "js_path (Some data) [''block'', ''header'', ''height''] = Inr (Some (JNum t))"
  shows "tip_of data = Some t" and "tip_of_lake data = Some t"
proof -
  from assms(3) obtain blk where b: "get_prop data ''block'' = Inr blk"
    and p: "js_path blk [''header'', ''height''] = Inr (Some (JNum t))"
    by (auto split: sum.splits)
  from p obtain v where "blk = Some v" by (cases blk) auto
  with p have "truthy blk" by (cases v) (auto split: sum.splits)
  with assms(1,2) b p show "tip_of data = Some t" by (simp add: tip_of_def)
  from assms(3) show "tip_of_lake data = Some t" by (simp add: tip_of_lake_def)
qed

lemma tip_answer:
  assumes "net w (sent w) = Response status (Some str)" and "ok status"
    and "JSON_parse rt str = Some data"
    and "get_prop data ''error'' = Inr err" and "\<not> truthy err"
    and "js_path (Some data) [''block'', ''header'', ''height''] = Inr (Some (JNum t))"
  shows "fst (fetchLatestBlockHeight rt l w) = t" and "fst (fetchLatestBlockHeight_lake rt l w) = t"
  using assms tip_of_height [OF assms(4,5,6)]
  by (simp_all add: fetchLatestBlockHeight_def fetchLatestBlockHeight_lake_def fetch_def)

text \<open>
  C9, amended. The start height is \<open>checkpoint + 1\<close> when the stored checkpoint is greater
  than 0, and no request is made; otherwise it is the value of \<^verbatim>\<open>START_BLOCK\<close> when that is
  set and \<open>parseInt\<close> reads an integer greater than 0 from it; otherwise it is the chain
  tip, when the tip query is answered with a success status and a body without an error
  that holds the height. After a restart with a checkpoint \<open>c > 0\<close> the loop starts at
  \<open>c + 1\<close>. In both files.
\<close>

theorem start_height_resolution:
  "(getLastBlockHeight d = Some c \<and> 0 < c \<longrightarrow>
      getStartBlockHeight rt d l w = (c + 1, l, w) \<and>
      getStartBlockHeight_lake rt d l w = (c + 1, l, w)) \<and>
   ((\<forall>c. getLastBlockHeight d = Some c \<longrightarrow> \<not> 0 < c) \<and> env_START_BLOCK rt = Some str \<and>
    parseInt str = Some n \<and> 0 < n \<longrightarrow>
      getStartBlockHeight rt d l w = (n, l, w) \<and>
      getStartBlockHeight_lake rt d l w = (n, l, w)) \<and>
   ((\<forall>c. getLastBlockHeight d = Some c \<longrightarrow> \<not> 0 < c) \<and>
    (\<forall>str n. env_START_BLOCK rt = Some str \<and> parseInt str = Some n \<longrightarrow> \<not> 0 < n) \<and>
    net w (sent w) = Response status (Some body) \<and> ok status \<and>
    JSON_parse rt body = Some data \<and> get_prop data ''error'' = Inr err \<and> \<not> truthy err \<and>
    js_path (Some data) [''block'', ''header'', ''height''] = Inr (Some (JNum t)) \<longrightarrow>
      fst (getStartBlockHeight rt d l w) = t \<and>
      fst (getStartBlockHeight_lake rt d l w) = t) \<and>
   (0 < c \<longrightarrow>
      currentHeight (startIndexing_init rt (setLastBlockHeight c d) w) = c + 1 \<and>
      currentHeight (startIndexing_init_lake rt (setLastBlockHeight c d) w) = c + 1)"
proof (intro conjI impI)
  assume "getLastBlockHeight d = Some c \<and> 0 < c"
  then show "getStartBlockHeight rt d l w = (c + 1, l, w)"
    and "getStartBlockHeight_lake rt d l w = (c + 1, l, w)"
    by (simp_all add: getStartBlockHeight_def getStartBlockHeight_lake_def)
next
  assume h: "(\<forall>c. getLastBlockHeight d = Some c \<longrightarrow> \<not> 0 < c) \<and> env_START_BLOCK rt = Some str \<and>
    parseInt str = Some n \<and> 0 < n"
  then have z: "above_zero (getLastBlockHeight d) = None"
    by (cases "getLastBlockHeight d") auto
  from h have "start_from_env rt = Some n" by (simp add: start_from_env_valid)
  with z show "getStartBlockHeight rt d l w = (n, l, w)"
    and "getStartBlockHeight_lake rt d l w = (n, l, w)"
    by (simp_all add: getStartBlockHeight_def getStartBlockHeight_lake_def)
next
  assume h: "(\<forall>c. getLastBlockHeight d = Some c \<longrightarrow> \<not> 0 < c) \<and>
    (\<forall>str n. env_START_BLOCK rt = Some str \<and> parseInt str = Some n \<longrightarrow> \<not> 0 < n) \<and>
    net w (sent w) = Response status (Some body) \<and> ok status \<and>
    JSON_parse rt body = Some data \<and> get_prop data ''error'' = Inr err \<and> \<not> truthy err \<and>
    js_path (Some data) [''block'', ''header'', ''height''] = Inr (Some (JNum t))"
  then have z: "above_zero (getLastBlockHeight d) = None"
    by (cases "getLastBlockHeight d") auto
  from h have "\<forall>str n. env_START_BLOCK rt = Some str \<and> parseInt str = Some n \<longrightarrow> \<not> 0 < n"
    by blast
  then have e: "start_from_env rt = None" by (rule start_from_env_invalid)
  from h have a: "fst (fetchLatestBlockHeight rt l w) = t"
    "fst (fetchLatestBlockHeight_lake rt l w) = t"
    using tip_answer [of w status body rt data err t l] by blast+
  from z e a show "fst (getStartBlockHeight rt d l w) = t"
    and "fst (getStartBlockHeight_lake rt d l w) = t"
    by (auto simp: getStartBlockHeight_def getStartBlockHeight_lake_def split: prod.splits)
next
  assume "0 < c"
  then show "currentHeight (startIndexing_init rt (setLastBlockHeight c d) w) = c + 1"
    and "currentHeight (startIndexing_init_lake rt (setLastBlockHeight c d) w) = c + 1"
    by (simp_all add: startIndexing_init_def startIndexing_init_lake_def getStartBlockHeight_def
        getStartBlockHeight_lake_def get_after_set split: prod.splits)
qed

lemma parseInt_77: "parseInt ''77'' = Some 77"
proof -
  have "String_num 77 = ''77''" by (simp add: String_num_def digits.simps digit_char_def)
  with parseInt_String_num [of 77] show ?thesis by (simp only:)
qed

theorem start_height_resolution_witness:
  "getLastBlockHeight (setLastBlockHeight 41 empty_db) = Some 41 \<and>
   getStartBlockHeight rt0 (setLastBlockHeight 41 empty_db) 0 (world_of Rejected) =
     (42, 0, world_of Rejected) \<and>
   getLastBlockHeight empty_db = Some 0 \<and>
   env_START_BLOCK rt_start_77 = Some ''77'' \<and> parseInt ''77'' = Some 77 \<and>
   getStartBlockHeight rt_start_77 empty_db 0 (world_of Rejected) = (77, 0, world_of Rejected) \<and>
   env_START_BLOCK rt0 = None \<and>
   JSON_parse rt0 txt_tip = Some val_tip \<and>
   js_path (Some val_tip) [''block'', ''header'', ''height''] = Inr (Some (JNum 500)) \<and>
   fst (getStartBlockHeight rt0 empty_db 0 (world_of (Response 200 (Some txt_tip)))) = 500 \<and>
   fst (getStartBlockHeight_lake rt0 empty_db 0 (world_of (Response 200 (Some txt_tip)))) = 500 \<and>
   currentHeight (startIndexing_init rt0 (setLastBlockHeight 41 empty_db) (world_of Rejected)) = 42"
proof -
  let ?T = "world_of (Response 200 (Some txt_tip))"
  have g: "getLastBlockHeight (setLastBlockHeight 41 empty_db) = Some 41"
    by (rule get_after_set)
  have e: "\<forall>c. getLastBlockHeight empty_db = Some c \<longrightarrow> \<not> 0 < c"
    by (simp add: checkpoint_empty)
  have p41: "(0::int) < 41" and p77: "(0::int) < 77" by simp_all
  have s: "env_START_BLOCK rt_start_77 = Some ''77''" by (simp add: rt_start_77_def)
  have n: "env_START_BLOCK rt0 = None" by (simp add: rt0_def)
  then have n': "\<forall>str n. env_START_BLOCK rt0 = Some str \<and> parseInt str = Some n \<longrightarrow> \<not> 0 < n"
    by simp
  have q: "net ?T (sent ?T) = Response 200 (Some txt_tip)" "ok 200"
    "JSON_parse rt0 txt_tip = Some val_tip" "get_prop val_tip ''error'' = Inr None"
    "\<not> truthy None"
    "js_path (Some val_tip) [''block'', ''header'', ''height''] = Inr (Some (JNum 500))"
    by (simp_all add: world_of_def ok_def rt0_def sample_parse_tip val_tip_def)
  have "getStartBlockHeight rt0 (setLastBlockHeight 41 empty_db) 0 (world_of Rejected) =
      (41 + 1, 0, world_of Rejected)"
    using start_height_resolution
      [where d = "setLastBlockHeight 41 empty_db" and c = 41 and rt = rt0 and l = 0
         and w = "world_of Rejected"] g p41
    by blast
  then have a1: "getStartBlockHeight rt0 (setLastBlockHeight 41 empty_db) 0 (world_of Rejected) =
      (42, 0, world_of Rejected)"
    by simp
  have a2: "getStartBlockHeight rt_start_77 empty_db 0 (world_of Rejected) =
      (77, 0, world_of Rejected)"
    using start_height_resolution
      [where d = empty_db and rt = rt_start_77 and l = 0 and w = "world_of Rejected"
         and str = "''77''" and n = 77] e s parseInt_77 p77
    by blast
  have a3: "fst (getStartBlockHeight rt0 empty_db 0 ?T) = 500 \<and>
      fst (getStartBlockHeight_lake rt0 empty_db 0 ?T) = 500"
    using start_height_resolution
      [where d = empty_db and rt = rt0 and l = 0 and w = ?T and status = 200
         and body = txt_tip and data = val_tip and err = None and t = 500] e n' q
    by blast
  have "currentHeight (startIndexing_init rt0 (setLastBlockHeight 41 empty_db)
      (world_of Rejected)) = 41 + 1"
    using start_height_resolution [where d = empty_db and c = 41 and rt = rt0
        and w = "world_of Rejected"] p41
    by blast
  then have a4: "currentHeight (startIndexing_init rt0 (setLastBlockHeight 41 empty_db)
      (world_of Rejected)) = 42"
    by simp
  from g s parseInt_77 a1 a2 n q(3) q(6) a3 a4 checkpoint_empty show ?thesis by blast
qed

lemma forget_checkpoint:
  "getLastBlockHeight (d\<lparr>sync_state := (sync_state d)(''last_block_height'' := None)\<rparr>) = Some 0"
  by (simp add: getLastBlockHeight_def)

text \<open>
  C10. \<open>getLastBlockHeight\<close> returns 0 when no checkpoint row is stored and when the stored
  text is \<open>0\<close>; \<open>getStartBlockHeight\<close> gives for a saved value that is not greater than 0
  (NaN included) what it gives when the row is absent: the configured start height or else
  the tip, not height 1. In both files.
\<close>

theorem checkpoint_zero_is_absent:
  "(sync_state d ''last_block_height'' = None \<longrightarrow> getLastBlockHeight d = Some 0) \<and>
   (sync_state d ''last_block_height'' = Some ''0'' \<longrightarrow> getLastBlockHeight d = Some 0) \<and>
   getLastBlockHeight (setLastBlockHeight 0 d) = Some 0 \<and>
   ((\<forall>c. getLastBlockHeight d = Some c \<longrightarrow> \<not> 0 < c) \<longrightarrow>
      getStartBlockHeight rt d l w =
        getStartBlockHeight rt
          (d\<lparr>sync_state := (sync_state d)(''last_block_height'' := None)\<rparr>) l w \<and>
      getStartBlockHeight_lake rt d l w =
        getStartBlockHeight_lake rt
          (d\<lparr>sync_state := (sync_state d)(''last_block_height'' := None)\<rparr>) l w \<and>
      fst (getStartBlockHeight rt d l w) =
        (case start_from_env rt of
           Some n \<Rightarrow> n
         | None \<Rightarrow> fst (fetchLatestBlockHeight rt l w)) \<and>
      fst (getStartBlockHeight_lake rt d l w) =
        (case start_from_env rt of
           Some n \<Rightarrow> n
         | None \<Rightarrow> fst (fetchLatestBlockHeight_lake rt l w)))"
proof (intro conjI impI)
  show "getLastBlockHeight d = Some 0" if "sync_state d ''last_block_height'' = None"
    using that by (simp add: getLastBlockHeight_def)
  show "getLastBlockHeight d = Some 0" if "sync_state d ''last_block_height'' = Some ''0''"
    using that by (simp add: getLastBlockHeight_def parseInt_0)
  show "getLastBlockHeight (setLastBlockHeight 0 d) = Some 0" by (rule get_after_set)
next
  assume h: "\<forall>c. getLastBlockHeight d = Some c \<longrightarrow> \<not> 0 < c"
  then have z: "above_zero (getLastBlockHeight d) = None"
    by (cases "getLastBlockHeight d") auto
  have f: "above_zero (getLastBlockHeight
      (d\<lparr>sync_state := (sync_state d)(''last_block_height'' := None)\<rparr>)) = None"
    by (simp add: forget_checkpoint)
  show "getStartBlockHeight rt d l w =
      getStartBlockHeight rt (d\<lparr>sync_state := (sync_state d)(''last_block_height'' := None)\<rparr>) l w"
    unfolding getStartBlockHeight_def z f by simp
  show "getStartBlockHeight_lake rt d l w =
      getStartBlockHeight_lake rt
        (d\<lparr>sync_state := (sync_state d)(''last_block_height'' := None)\<rparr>) l w"
    unfolding getStartBlockHeight_lake_def z f by simp
  show "fst (getStartBlockHeight rt d l w) =
      (case start_from_env rt of Some n \<Rightarrow> n | None \<Rightarrow> fst (fetchLatestBlockHeight rt l w))"
    unfolding getStartBlockHeight_def z by (simp split: option.splits prod.splits)
  show "fst (getStartBlockHeight_lake rt d l w) =
      (case start_from_env rt of Some n \<Rightarrow> n
       | None \<Rightarrow> fst (fetchLatestBlockHeight_lake rt l w))"
    unfolding getStartBlockHeight_lake_def z by (simp split: option.splits prod.splits)
qed

theorem checkpoint_zero_is_absent_witness:
  "sync_state empty_db ''last_block_height'' = None \<and>
   getLastBlockHeight empty_db = Some 0 \<and>
   sync_state (setLastBlockHeight 0 empty_db) ''last_block_height'' = Some ''0'' \<and>
   getLastBlockHeight (setLastBlockHeight 0 empty_db) = Some 0 \<and>
   fst (getStartBlockHeight rt0 (setLastBlockHeight 0 empty_db) 0
          (world_of (Response 200 (Some txt_tip)))) = 500 \<and>
   fst (getStartBlockHeight rt_start_77 (setLastBlockHeight 0 empty_db) 0
          (world_of (Response 200 (Some txt_tip)))) = 77"
proof -
  let ?d = "setLastBlockHeight 0 empty_db"
  let ?w = "world_of (Response 200 (Some txt_tip))"
  have n: "sync_state empty_db ''last_block_height'' = None" by (simp add: empty_db_def)
  have nz: "\<not> (0::int) < 0" by simp
  have z: "sync_state ?d ''last_block_height'' = Some ''0''"
    by (simp add: setLastBlockHeight_def String_num_0)
  have g0: "getLastBlockHeight empty_db = Some 0"
    using checkpoint_zero_is_absent [of empty_db] n by blast
  have g: "getLastBlockHeight ?d = Some 0"
    using checkpoint_zero_is_absent [of ?d] z by blast
  have "fst (getStartBlockHeight rt0 ?d 0 ?w) =
      (case start_from_env rt0 of Some n \<Rightarrow> n | None \<Rightarrow> fst (fetchLatestBlockHeight rt0 0 ?w))"
    using checkpoint_zero_is_absent [of ?d rt0 0 ?w] g nz by auto
  then have a1: "fst (getStartBlockHeight rt0 ?d 0 ?w) = 500"
    by (simp add: start_from_env_rt0 eval_tip [OF parse_rt0])
  have s77: "start_from_env rt_start_77 = Some 77"
    by (simp add: start_from_env_def rt_start_77_def parseInt_77)
  have "fst (getStartBlockHeight rt_start_77 ?d 0 ?w) =
      (case start_from_env rt_start_77 of Some n \<Rightarrow> n
       | None \<Rightarrow> fst (fetchLatestBlockHeight rt_start_77 0 ?w))"
    using checkpoint_zero_is_absent [of ?d rt_start_77 0 ?w] g nz by auto
  then have a2: "fst (getStartBlockHeight rt_start_77 ?d 0 ?w) = 77"
    by (simp add: s77)
  from n g0 z g a1 a2 show ?thesis by blast
qed

section \<open>Retry, classification and pace in the two files\<close>

lemma backoff_from_0:
  "backoff_from h 0 =
     [GetBlock h, Sleep (RETRY_BASE_MS * 2 ^ 0), GetBlock h, Sleep (RETRY_BASE_MS * 2 ^ 1),
      GetBlock h]"
  by (simp add: backoff_from_def MAX_RETRIES_def upt_rec)

lemma backoff_from_lake_0:
  "backoff_from_lake h 0 =
     [GetBlock h, Sleep (RETRY_BASE_MS_lake * 2 ^ 0), GetBlock h,
      Sleep (RETRY_BASE_MS_lake * 2 ^ 1), GetBlock h]"
  by (simp add: backoff_from_lake_def MAX_RETRIES_def upt_rec)

lemma fetchBlock_lake_world:
  "snd (fetchBlock_lake rt h w) = w\<lparr>sent := Suc (sent w), trace := trace w @ [GetBlock h]\<rparr>"
  by (simp add: fetchBlock_lake_def fetch_def split: http_outcome.splits option.splits sum.splits)

lemma backoff_from_lake_step:
  "a < MAX_RETRIES \<Longrightarrow>
   backoff_from_lake h a =
     GetBlock h # (if a < MAX_RETRIES - 1 then [Sleep (RETRY_BASE_MS_lake * 2 ^ a)] else [])
       @ backoff_from_lake h (Suc a)"
  by (simp add: backoff_from_lake_def upt_rec [of a])

lemma backoff_from_lake_done: "\<not> a < MAX_RETRIES \<Longrightarrow> backoff_from_lake h a = []"
  by (simp add: backoff_from_lake_def)

lemma retry_from_lake_returned:
  "a < MAX_RETRIES \<Longrightarrow> fetchBlock_lake rt h w = (Inr b, w') \<Longrightarrow>
   retry_from_lake rt h a w = (Inr b, w')"
  by (subst retry_from_lake.simps) simp

lemma retry_from_lake_again:
  "a < MAX_RETRIES - 1 \<Longrightarrow> fetchBlock_lake rt h w = (Inl e, w') \<Longrightarrow>
   retry_from_lake rt h a w =
     retry_from_lake rt h (Suc a) (sleep (RETRY_BASE_MS_lake * 2 ^ a) w')"
  by (subst retry_from_lake.simps) auto

lemma retry_from_lake_last:
  "a < MAX_RETRIES \<Longrightarrow> \<not> a < MAX_RETRIES - 1 \<Longrightarrow> fetchBlock_lake rt h w = (r, w') \<Longrightarrow>
   retry_from_lake rt h a w = (r, w')"
  by (subst retry_from_lake.simps, cases r) (auto split: if_splits)

lemma retry_from_lake_trace:
  "MAX_RETRIES - a = n \<Longrightarrow>
   (\<exists>k. trace (snd (retry_from_lake rt h a w)) = trace w @ take k (backoff_from_lake h a)) \<and>
   sent (snd (retry_from_lake rt h a w)) \<le> sent w + n \<and>
   (0 < n \<longrightarrow> (\<exists>wl. retry_from_lake rt h a w = fetchBlock_lake rt h wl \<and> net wl = net w \<and>
                   sent w \<le> sent wl))"
proof (induction n arbitrary: a w)
  case 0
  then have "\<not> a < MAX_RETRIES" by simp
  then show ?case by (simp add: retry_from_lake.simps)
next
  case (Suc n)
  then have a: "a < MAX_RETRIES" by simp
  obtain r w' where f: "fetchBlock_lake rt h w = (r, w')" by (rule prod.exhaust)
  with fetchBlock_lake_world [of rt h w]
  have w': "w' = w\<lparr>sent := Suc (sent w), trace := trace w @ [GetBlock h]\<rparr>" by simp
  have first: "trace w' = trace w @ take 1 (backoff_from_lake h a)"
    by (simp add: w' backoff_from_lake_step [OF a])
  show ?case
  proof (cases "(\<exists>e. r = Inl e) \<and> a < MAX_RETRIES - 1")
    case False
    have "retry_from_lake rt h a w = (r, w')"
    proof (cases r)
      case (Inr b)
      with a f show ?thesis by (simp add: retry_from_lake_returned)
    next
      case (Inl e)
      with False have "\<not> a < MAX_RETRIES - 1" by simp
      with a f show ?thesis by (simp add: retry_from_lake_last)
    qed
    moreover from this f have "\<exists>wl. retry_from_lake rt h a w = fetchBlock_lake rt h wl \<and>
        net wl = net w \<and> sent w \<le> sent wl"
      by (intro exI [of _ w]) simp
    ultimately show ?thesis using first by (auto simp: w')
  next
    case True
    then obtain e where e: "r = Inl e" and lt: "a < MAX_RETRIES - 1" by blast
    let ?w = "sleep (RETRY_BASE_MS_lake * 2 ^ a) w'"
    from f e lt have again: "retry_from_lake rt h a w = retry_from_lake rt h (Suc a) ?w"
      by (simp add: retry_from_lake_again)
    from Suc.prems have m: "MAX_RETRIES - Suc a = n" by simp
    from lt have "Suc a < MAX_RETRIES" by linarith
    with m have n: "0 < n" by linarith
    from Suc.IH [OF m, of ?w] obtain k where
      k: "trace (snd (retry_from_lake rt h (Suc a) ?w)) =
            trace ?w @ take k (backoff_from_lake h (Suc a))"
      and s: "sent (snd (retry_from_lake rt h (Suc a) ?w)) \<le> sent ?w + n"
      and l: "0 < n \<longrightarrow> (\<exists>wl. retry_from_lake rt h (Suc a) ?w = fetchBlock_lake rt h wl \<and>
                 net wl = net ?w \<and> sent ?w \<le> sent wl)"
      by blast
    have tw: "trace ?w = trace w @ [GetBlock h, Sleep (RETRY_BASE_MS_lake * 2 ^ a)]"
      by (simp add: sleep_def w')
    have sw: "sent ?w = Suc (sent w)" "net ?w = net w" by (simp_all add: sleep_def w')
    have b: "backoff_from_lake h a =
        [GetBlock h, Sleep (RETRY_BASE_MS_lake * 2 ^ a)] @ backoff_from_lake h (Suc a)"
      using lt by (simp add: backoff_from_lake_step [OF a])
    have "trace (snd (retry_from_lake rt h a w)) = trace w @ take (k + 2) (backoff_from_lake h a)"
      using again k by (simp add: tw b)
    then have "\<exists>k. trace (snd (retry_from_lake rt h a w)) =
        trace w @ take k (backoff_from_lake h a)" ..
    moreover have "sent (snd (retry_from_lake rt h a w)) \<le> sent w + Suc n"
      using again s by (simp add: sw)
    moreover from l n obtain wl where "retry_from_lake rt h (Suc a) ?w = fetchBlock_lake rt h wl"
      "net wl = net ?w" "sent ?w \<le> sent wl" by blast
    then have "\<exists>wl. retry_from_lake rt h a w = fetchBlock_lake rt h wl \<and> net wl = net w \<and>
        sent w \<le> sent wl"
      using again by (intro exI [of _ wl]) (simp add: sw)
    ultimately show ?thesis by blast
  qed
qed


lemma fetchLatestBlockHeight_world:
  "snd (fetchLatestBlockHeight rt l w) = w\<lparr>sent := Suc (sent w), trace := trace w @ [GetTip]\<rparr>"
  by (simp add: fetchLatestBlockHeight_def fetch_def
      split: http_outcome.splits option.splits)

lemma fetchLatestBlockHeight_lake_world:
  "snd (fetchLatestBlockHeight_lake rt l w) =
     w\<lparr>sent := Suc (sent w), trace := trace w @ [GetTip]\<rparr>"
  by (simp add: fetchLatestBlockHeight_lake_def fetch_def
      split: http_outcome.splits option.splits)

lemma sample_parse_blk: "sample_parse txt_blk = Some val_blk"
  by (simp add: sample_parse_def txt_msg_def txt_key_def txt_err_def txt_tip_def txt_blk_def)

lemma parse_val_blk: "parseBlock rt val_blk d = (Inr 0, d)"
  by (simp add: parseBlock_def val_blk_def seq_def)

lemma eval_retry_blk:
  "fetchBlockWithRetry rt0 h (world_of (Response 200 (Some txt_blk))) =
     (Inr val_blk,
      \<lparr>net = (\<lambda>n. Response 200 (Some txt_blk)), sent = 1, trace = [GetBlock h]\<rparr>)"
proof -
  have "fetchBlock rt0 h (world_of (Response 200 (Some txt_blk))) =
     (Inr val_blk,
      \<lparr>net = (\<lambda>n. Response 200 (Some txt_blk)), sent = 1, trace = [GetBlock h]\<rparr>)"
    by (simp add: fetchBlock_def fetch_def world_of_def rt0_def sample_parse_blk)
       (simp add: val_blk_def txt_blk_def)
  moreover have "val_blk \<noteq> JNull" by (simp add: val_blk_def)
  ultimately show ?thesis
    by (simp add: fetchBlockWithRetry_def retry_from_data MAX_RETRIES_def)
qed

lemma eval_retry_lake_blk:
  "fetchBlockWithRetry_lake rt0 h (world_of (Response 200 (Some txt_blk))) =
     (Inr val_blk,
      \<lparr>net = (\<lambda>n. Response 200 (Some txt_blk)), sent = 1, trace = [GetBlock h]\<rparr>)"
  by (simp add: fetchBlockWithRetry_lake_def retry_from_lake.simps MAX_RETRIES_def
      fetchBlock_lake_def fetch_def world_of_def rt0_def sample_parse_blk)

lemma eval_iteration_blk:
  "\<not> h > t \<Longrightarrow>
   trace (io (iteration rt0 (state_at h t (Response 200 (Some txt_blk))))) =
     [GetBlock h, Sleep (pace t (h + 1))]"
proof -
  assume n: "\<not> h > t"
  have v: "val_blk \<noteq> JNull" by (simp add: val_blk_def)
  have s: "currentHeight (state_at h t r) = h" "latestKnownHeight (state_at h t r) = t"
    "io (state_at h t r) = world_of r" "database (state_at h t r) = empty_db" for r
    by (simp_all add: state_at_def)
  from n show ?thesis
    by (simp add: iteration_def refresh_state_at process_height_def s eval_retry_blk v
        parse_val_blk sleep_def)
qed

lemma eval_iteration_lake_blk:
  "\<not> h > t \<Longrightarrow>
   trace (io (iteration_lake rt0 (state_at h t (Response 200 (Some txt_blk))))) =
     [GetBlock h, Sleep 50]"
proof -
  assume n: "\<not> h > t"
  have v: "val_blk \<noteq> JNull" by (simp add: val_blk_def)
  have s: "currentHeight (state_at h t r) = h" "latestKnownHeight (state_at h t r) = t"
    "io (state_at h t r) = world_of r" "database (state_at h t r) = empty_db" for r
    by (simp_all add: state_at_def)
  from n show ?thesis
    by (simp add: iteration_lake_def refresh_lake_state_at process_height_lake_def s
        eval_retry_lake_blk v parse_val_blk sleep_def POLL_INTERVAL_MS_lake_def)
qed


text \<open>
  C3, as stated, fails in \<^verbatim>\<open>src/lake.ts\<close> where every request is answered with status 404:
  \<open>fetchBlockWithRetry\<close> of that file makes one request and returns null without a sleep
  or a second attempt (\<^verbatim>\<open>Don't retry on null\<close>). The newer file makes three requests with
  sleeps of 1000 and 2000 ms between them.
\<close>

theorem lake_null_not_retried:
  "fetchBlockWithRetry_lake rt0 500 (world_of (Response 404 (Some []))) =
     (Inr JNull, \<lparr>net = (\<lambda>n. Response 404 (Some [])), sent = 1, trace = [GetBlock 500]\<rparr>) \<and>
   fetchBlockWithRetry rt0 500 (world_of (Response 404 (Some []))) =
     (Inr JNull,
      \<lparr>net = (\<lambda>n. Response 404 (Some [])), sent = 3,
       trace = [GetBlock 500, Sleep 1000, GetBlock 500, Sleep 2000, GetBlock 500]\<rparr>)"
  by (simp add: eval_retry_404 eval_retry_lake_404)

text \<open>
  C3, amended. In both files a call makes at most \<open>MAX_RETRIES\<close> requests, its requests and
  sleeps are an initial part of the schedule request, sleep \<open>base * 2 ^ 0\<close>, request, sleep
  \<open>base * 2 ^ 1\<close>, request, and its result is the result of the last \<open>fetchBlock\<close> it made
  (a thrown error included). In the newer file an attempt before the last that ends in null
  or in a thrown error is followed by the sleep \<open>RETRY_BASE_MS * 2 ^ attempt\<close> and the next
  attempt. In \<^verbatim>\<open>src/lake.ts\<close> only a thrown error is; whatever \<open>fetchBlock\<close> returns, null
  included, ends the call at once.
\<close>

theorem retry_attempts_and_backoff:
  "(\<exists>k. trace (snd (fetchBlockWithRetry rt h w)) = trace w @ take k (backoff_from h 0)) \<and>
   sent (snd (fetchBlockWithRetry rt h w)) \<le> sent w + MAX_RETRIES \<and>
   (\<exists>wl. fetchBlockWithRetry rt h w = fetchBlock rt h wl \<and> net wl = net w \<and> sent w \<le> sent wl) \<and>
   backoff_from h 0 =
     [GetBlock h, Sleep (RETRY_BASE_MS * 2 ^ 0), GetBlock h, Sleep (RETRY_BASE_MS * 2 ^ 1),
      GetBlock h] \<and>
   (a < MAX_RETRIES - 1 \<and> fetchBlock rt h w = (r, w') \<and> (r = Inr JNull \<or> (\<exists>e. r = Inl e)) \<longrightarrow>
      retry_from rt h a w = retry_from rt h (Suc a) (sleep (RETRY_BASE_MS * 2 ^ a) w')) \<and>
   (\<exists>k. trace (snd (fetchBlockWithRetry_lake rt h w)) = trace w @ take k (backoff_from_lake h 0)) \<and>
   sent (snd (fetchBlockWithRetry_lake rt h w)) \<le> sent w + MAX_RETRIES \<and>
   (\<exists>wl. fetchBlockWithRetry_lake rt h w = fetchBlock_lake rt h wl \<and> net wl = net w \<and>
      sent w \<le> sent wl) \<and>
   backoff_from_lake h 0 =
     [GetBlock h, Sleep (RETRY_BASE_MS_lake * 2 ^ 0), GetBlock h,
      Sleep (RETRY_BASE_MS_lake * 2 ^ 1), GetBlock h] \<and>
   (a < MAX_RETRIES - 1 \<and> fetchBlock_lake rt h w = (Inl e, w') \<longrightarrow>
      retry_from_lake rt h a w =
        retry_from_lake rt h (Suc a) (sleep (RETRY_BASE_MS_lake * 2 ^ a) w')) \<and>
   (a < MAX_RETRIES \<and> fetchBlock_lake rt h w = (Inr b, w') \<longrightarrow>
      retry_from_lake rt h a w = (Inr b, w'))"
proof -
  have m: "MAX_RETRIES - 0 = MAX_RETRIES" "0 < MAX_RETRIES" by (simp_all add: MAX_RETRIES_def)
  note t = retry_from_trace [OF m(1), of rt h w]
  note u = retry_from_lake_trace [OF m(1), of rt h w]
  from t have n1: "\<exists>k. trace (snd (fetchBlockWithRetry rt h w)) = trace w @ take k (backoff_from h 0)"
    unfolding fetchBlockWithRetry_def by blast
  from t have n2: "sent (snd (fetchBlockWithRetry rt h w)) \<le> sent w + MAX_RETRIES"
    unfolding fetchBlockWithRetry_def by blast
  from t m(2) have n3: "\<exists>wl. fetchBlockWithRetry rt h w = fetchBlock rt h wl \<and> net wl = net w \<and>
      sent w \<le> sent wl"
    unfolding fetchBlockWithRetry_def by blast
  have n4: "a < MAX_RETRIES - 1 \<and> fetchBlock rt h w = (r, w') \<and>
      (r = Inr JNull \<or> (\<exists>e. r = Inl e)) \<longrightarrow>
      retry_from rt h a w = retry_from rt h (Suc a) (sleep (RETRY_BASE_MS * 2 ^ a) w')"
    using retry_from_again [of a rt h w r w'] by blast
  from u have o1: "\<exists>k. trace (snd (fetchBlockWithRetry_lake rt h w)) =
      trace w @ take k (backoff_from_lake h 0)"
    unfolding fetchBlockWithRetry_lake_def by blast
  from u have o2: "sent (snd (fetchBlockWithRetry_lake rt h w)) \<le> sent w + MAX_RETRIES"
    unfolding fetchBlockWithRetry_lake_def by blast
  from u m(2) have o3: "\<exists>wl. fetchBlockWithRetry_lake rt h w = fetchBlock_lake rt h wl \<and>
      net wl = net w \<and> sent w \<le> sent wl"
    unfolding fetchBlockWithRetry_lake_def by blast
  have o4: "a < MAX_RETRIES - 1 \<and> fetchBlock_lake rt h w = (Inl e, w') \<longrightarrow>
      retry_from_lake rt h a w =
        retry_from_lake rt h (Suc a) (sleep (RETRY_BASE_MS_lake * 2 ^ a) w')"
    using retry_from_lake_again [of a rt h w e w'] by blast
  have o5: "a < MAX_RETRIES \<and> fetchBlock_lake rt h w = (Inr b, w') \<longrightarrow>
      retry_from_lake rt h a w = (Inr b, w')"
    using retry_from_lake_returned [of a rt h w b w'] by blast
  from n1 n2 n3 backoff_from_0 [of h] n4 o1 o2 o3 backoff_from_lake_0 [of h] o4 o5
  show ?thesis by blast
qed

lemma eval_fetch_404:
  "fetchBlock rt0 500 (world_of (Response 404 (Some []))) =
     (Inr JNull, \<lparr>net = (\<lambda>n. Response 404 (Some [])), sent = 1, trace = [GetBlock 500]\<rparr>)"
  by (simp add: fetchBlock_def fetch_def world_of_def)

lemma eval_fetch_lake_404:
  "fetchBlock_lake rt0 500 (world_of (Response 404 (Some []))) =
     (Inr JNull, \<lparr>net = (\<lambda>n. Response 404 (Some [])), sent = 1, trace = [GetBlock 500]\<rparr>)"
  by (simp add: fetchBlock_lake_def fetch_def world_of_def)

lemma eval_fetch_lake_rejected:
  "fetchBlock_lake rt0 500 (world_of Rejected) =
     (Inl NetworkError, \<lparr>net = (\<lambda>n. Rejected), sent = 1, trace = [GetBlock 500]\<rparr>)"
  by (simp add: fetchBlock_lake_def fetch_def world_of_def)

theorem retry_attempts_and_backoff_witness:
  "fetchBlock rt0 500 (world_of (Response 404 (Some []))) =
     (Inr JNull, \<lparr>net = (\<lambda>n. Response 404 (Some [])), sent = 1, trace = [GetBlock 500]\<rparr>) \<and>
   retry_from rt0 500 0 (world_of (Response 404 (Some []))) =
     retry_from rt0 500 1
       \<lparr>net = (\<lambda>n. Response 404 (Some [])), sent = 1, trace = [GetBlock 500, Sleep 1000]\<rparr> \<and>
   fetchBlock_lake rt0 500 (world_of Rejected) =
     (Inl NetworkError, \<lparr>net = (\<lambda>n. Rejected), sent = 1, trace = [GetBlock 500]\<rparr>) \<and>
   retry_from_lake rt0 500 0 (world_of Rejected) =
     retry_from_lake rt0 500 1
       \<lparr>net = (\<lambda>n. Rejected), sent = 1, trace = [GetBlock 500, Sleep 500]\<rparr> \<and>
   retry_from_lake rt0 500 0 (world_of (Response 404 (Some []))) =
     (Inr JNull, \<lparr>net = (\<lambda>n. Response 404 (Some [])), sent = 1, trace = [GetBlock 500]\<rparr>)"
proof -
  let ?W = "world_of (Response 404 (Some []))"
  let ?W1 = "\<lparr>net = (\<lambda>n. Response 404 (Some [])), sent = 1, trace = [GetBlock 500]\<rparr>"
  let ?R = "world_of Rejected"
  let ?R1 = "\<lparr>net = (\<lambda>n. Rejected), sent = 1, trace = [GetBlock 500]\<rparr>"
  have a0: "0 < MAX_RETRIES - 1" "0 < MAX_RETRIES" by (simp_all add: MAX_RETRIES_def)
  note t1 = retry_attempts_and_backoff
    [where rt = rt0 and h = 500 and w = ?W and a = 0 and r = "Inr JNull" and w' = ?W1]
  from t1 have "0 < MAX_RETRIES - 1 \<and> fetchBlock rt0 500 ?W = (Inr JNull, ?W1) \<and>
      (Inr JNull = (Inr JNull :: error + json) \<or> (\<exists>e. (Inr JNull :: error + json) = Inl e)) \<longrightarrow>
      retry_from rt0 500 0 ?W = retry_from rt0 500 (Suc 0) (sleep (RETRY_BASE_MS * 2 ^ 0) ?W1)"
    by blast
  with a0 eval_fetch_404
  have "retry_from rt0 500 0 ?W = retry_from rt0 500 (Suc 0) (sleep (RETRY_BASE_MS * 2 ^ 0) ?W1)"
    by blast
  then have c1: "retry_from rt0 500 0 ?W = retry_from rt0 500 1
      \<lparr>net = (\<lambda>n. Response 404 (Some [])), sent = 1, trace = [GetBlock 500, Sleep 1000]\<rparr>"
    by (simp add: sleep_def RETRY_BASE_MS_def)
  from t1 have "0 < MAX_RETRIES \<and> fetchBlock_lake rt0 500 ?W = (Inr JNull, ?W1) \<longrightarrow>
      retry_from_lake rt0 500 0 ?W = (Inr JNull, ?W1)"
    by blast
  with a0 eval_fetch_lake_404 have c3: "retry_from_lake rt0 500 0 ?W = (Inr JNull, ?W1)"
    by blast
  note t2 = retry_attempts_and_backoff
    [where rt = rt0 and h = 500 and w = ?R and a = 0 and e = NetworkError and w' = ?R1]
  from t2 have "0 < MAX_RETRIES - 1 \<and> fetchBlock_lake rt0 500 ?R = (Inl NetworkError, ?R1) \<longrightarrow>
      retry_from_lake rt0 500 0 ?R =
        retry_from_lake rt0 500 (Suc 0) (sleep (RETRY_BASE_MS_lake * 2 ^ 0) ?R1)"
    by blast
  with a0 eval_fetch_lake_rejected
  have "retry_from_lake rt0 500 0 ?R =
      retry_from_lake rt0 500 (Suc 0) (sleep (RETRY_BASE_MS_lake * 2 ^ 0) ?R1)"
    by blast
  then have c2: "retry_from_lake rt0 500 0 ?R = retry_from_lake rt0 500 1
      \<lparr>net = (\<lambda>n. Rejected), sent = 1, trace = [GetBlock 500, Sleep 500]\<rparr>"
    by (simp add: sleep_def RETRY_BASE_MS_lake_def)
  from eval_fetch_404 c1 eval_fetch_lake_rejected c2 c3 show ?thesis by blast
qed

lemma sample_parse_err: "sample_parse txt_err = Some val_err"
  by (simp add: sample_parse_def txt_msg_def txt_key_def txt_err_def)

lemma sample_parse_err_null: "sample_parse txt_err_null = Some val_err_null"
  by (simp add: sample_parse_def txt_msg_def txt_key_def txt_err_def txt_tip_def txt_blk_def
      txt_err_null_def)

text \<open>
  C4, as stated, fails on a 200 response whose body carries an error field that is not
  truthy, here \<^verbatim>\<open>{"error":null}\<close>: \<open>fetchBlock\<close> of the newer file tests the field with
  \<^verbatim>\<open>data && data.error\<close> and returns the body as data. It fails in \<^verbatim>\<open>src/lake.ts\<close> on every
  body with an error field, here the rate-limit answer \<^verbatim>\<open>{"error":"rate limited"}\<close>, which is
  returned as data, and on a body that is not JSON, for which \<open>fetchBlock\<close> throws: that file
  has no check of the body.
\<close>

theorem error_field_returned_as_data:
  "sample_parse txt_err_null = Some val_err_null \<and>
   get_prop val_err_null ''error'' = Inr (Some JNull) \<and>
   fst (fetchBlock rt0 500 (world_of (Response 200 (Some txt_err_null)))) = Inr val_err_null \<and>
   val_err_null \<noteq> JNull \<and>
   sample_parse txt_err = Some val_err \<and>
   fst (fetchBlock_lake rt0 500 (world_of (Response 200 (Some txt_err)))) = Inr val_err \<and>
   val_err \<noteq> JNull \<and>
   sample_parse txt_bad = None \<and>
   fst (fetchBlock_lake rt0 500 (world_of (Response 200 (Some txt_bad)))) = Inl SyntaxError"
proof -
  have n0: "fst (fetchBlock rt0 500 (world_of (Response 200 (Some txt_err_null)))) =
      Inr val_err_null"
    by (simp add: fetchBlock_def fetch_def world_of_def rt0_def sample_parse_err_null)
       (simp add: val_err_null_def txt_err_null_def)
  have l1: "fst (fetchBlock_lake rt0 500 (world_of (Response 200 (Some txt_err)))) = Inr val_err"
    by (simp add: fetchBlock_lake_def fetch_def world_of_def rt0_def sample_parse_err)
  have l2: "fst (fetchBlock_lake rt0 500 (world_of (Response 200 (Some txt_bad)))) = Inl SyntaxError"
    by (simp add: fetchBlock_lake_def fetch_def world_of_def rt0_def sample_parse_bad)
  have v: "get_prop val_err_null ''error'' = Inr (Some JNull)" "val_err_null \<noteq> JNull"
    "val_err \<noteq> JNull"
    by (simp_all add: val_err_null_def val_err_def)
  from n0 l1 l2 v sample_parse_err sample_parse_err_null sample_parse_bad show ?thesis by blast
qed

text \<open>
  C4, amended. \<open>fetchBlock\<close> of the newer file returns null, and throws nothing, for a status
  other than 200, for a body that \<^verbatim>\<open>JSON.parse\<close> rejects, and for a body whose \<open>error\<close>
  property is truthy; these results are the same value and cannot be told apart. A body
  of two characters or more whose \<open>error\<close> property is absent or not truthy is returned as
  data. \<open>fetchBlock\<close> of \<^verbatim>\<open>src/lake.ts\<close> returns null for a status other than 200 only: it
  returns every body that parses as data, an error field or not, and throws on a body that
  does not parse.
\<close>

theorem fetchBlock_no_data:
  "(net w (sent w) = Response status body \<and> status \<noteq> 200 \<longrightarrow>
      fst (fetchBlock rt h w) = Inr JNull \<and> fst (fetchBlock_lake rt h w) = Inr JNull) \<and>
   (net w (sent w) = Response 200 (Some str) \<and> JSON_parse rt str = None \<longrightarrow>
      fst (fetchBlock rt h w) = Inr JNull \<and> fst (fetchBlock_lake rt h w) = Inl SyntaxError) \<and>
   (net w (sent w) = Response 200 (Some str) \<and> JSON_parse rt str = Some data \<and>
    get_prop data ''error'' = Inr err \<and> truthy err \<longrightarrow>
      fst (fetchBlock rt h w) = Inr JNull \<and> fst (fetchBlock_lake rt h w) = Inr data) \<and>
   (net w (sent w) = Response 200 (Some str) \<and> 2 \<le> length str \<and>
    JSON_parse rt str = Some data \<and> get_prop data ''error'' = Inr err \<and> \<not> truthy err \<longrightarrow>
      fst (fetchBlock rt h w) = Inr data \<and> fst (fetchBlock_lake rt h w) = Inr data)"
proof -
  have obj: "truthy (Some data)" if "get_prop data ''error'' = Inr err" and "truthy err"
    using that by (cases data) auto
  have new: "(net w (sent w) = Response status body \<and> status \<noteq> 200 \<longrightarrow>
      fst (fetchBlock rt h w) = Inr JNull) \<and>
   (net w (sent w) = Response 200 (Some str) \<and> JSON_parse rt str = None \<longrightarrow>
      fst (fetchBlock rt h w) = Inr JNull) \<and>
   (net w (sent w) = Response 200 (Some str) \<and> JSON_parse rt str = Some data \<and>
    get_prop data ''error'' = Inr err \<and> truthy err \<longrightarrow>
      fst (fetchBlock rt h w) = Inr JNull) \<and>
   (net w (sent w) = Response 200 (Some str) \<and> 2 \<le> length str \<and>
    JSON_parse rt str = Some data \<and> get_prop data ''error'' = Inr err \<and> \<not> truthy err \<longrightarrow>
      fst (fetchBlock rt h w) = Inr data)"
    using obj by (auto simp: fetchBlock_def fetch_def)
  have old: "(net w (sent w) = Response status body \<and> status \<noteq> 200 \<longrightarrow>
      fst (fetchBlock_lake rt h w) = Inr JNull) \<and>
   (net w (sent w) = Response 200 (Some str) \<and> JSON_parse rt str = None \<longrightarrow>
      fst (fetchBlock_lake rt h w) = Inl SyntaxError) \<and>
   (net w (sent w) = Response 200 (Some str) \<and> JSON_parse rt str = Some data \<longrightarrow>
      fst (fetchBlock_lake rt h w) = Inr data)"
    by (auto simp: fetchBlock_lake_def fetch_def)
  from new old show ?thesis by blast
qed

theorem fetchBlock_no_data_witness:
  "fst (fetchBlock rt0 500 (world_of (Response 404 (Some [])))) = Inr JNull \<and>
   fst (fetchBlock_lake rt0 500 (world_of (Response 404 (Some [])))) = Inr JNull \<and>
   sample_parse txt_bad = None \<and>
   fst (fetchBlock rt0 500 (world_of (Response 200 (Some txt_bad)))) = Inr JNull \<and>
   sample_parse txt_err = Some val_err \<and>
   get_prop val_err ''error'' = Inr (Some (JStr ''rate limited'')) \<and>
   fst (fetchBlock rt0 500 (world_of (Response 200 (Some txt_err)))) = Inr JNull \<and>
   sample_parse txt_blk = Some val_blk \<and> get_prop val_blk ''error'' = Inr None \<and>
   fst (fetchBlock rt0 500 (world_of (Response 200 (Some txt_blk)))) = Inr val_blk"
proof -
  have s: "sent (world_of r) = 0" "net (world_of r) 0 = r" for r
    by (simp_all add: world_of_def)
  have p: "JSON_parse rt0 txt_bad = None" "JSON_parse rt0 txt_err = Some val_err"
    "JSON_parse rt0 txt_blk = Some val_blk"
    by (simp_all add: rt0_def sample_parse_bad sample_parse_err sample_parse_blk)
  have e: "get_prop val_err ''error'' = Inr (Some (JStr ''rate limited''))"
    "truthy (Some (JStr ''rate limited''))" "get_prop val_blk ''error'' = Inr None"
    "\<not> truthy None" "2 \<le> length txt_blk" "(404::nat) \<noteq> 200"
    by (simp_all add: val_err_def val_blk_def txt_blk_def)
  note t1 = fetchBlock_no_data [where w = "world_of (Response 404 (Some []))" and status = 404
      and body = "Some []" and rt = rt0 and h = 500]
  from t1 have "net (world_of (Response 404 (Some []))) (sent (world_of (Response 404 (Some [])))) =
        Response 404 (Some []) \<and> (404::nat) \<noteq> 200 \<longrightarrow>
      fst (fetchBlock rt0 500 (world_of (Response 404 (Some [])))) = Inr JNull \<and>
      fst (fetchBlock_lake rt0 500 (world_of (Response 404 (Some [])))) = Inr JNull"
    by blast
  with s e(6) have c1: "fst (fetchBlock rt0 500 (world_of (Response 404 (Some [])))) = Inr JNull \<and>
      fst (fetchBlock_lake rt0 500 (world_of (Response 404 (Some [])))) = Inr JNull"
    by simp
  note t2 = fetchBlock_no_data [where w = "world_of (Response 200 (Some txt_bad))"
      and str = txt_bad and rt = rt0 and h = 500]
  from t2 have "net (world_of (Response 200 (Some txt_bad)))
        (sent (world_of (Response 200 (Some txt_bad)))) = Response 200 (Some txt_bad) \<and>
      JSON_parse rt0 txt_bad = None \<longrightarrow>
      fst (fetchBlock rt0 500 (world_of (Response 200 (Some txt_bad)))) = Inr JNull \<and>
      fst (fetchBlock_lake rt0 500 (world_of (Response 200 (Some txt_bad)))) = Inl SyntaxError"
    by blast
  with s p(1) have c2: "fst (fetchBlock rt0 500 (world_of (Response 200 (Some txt_bad)))) = Inr JNull"
    by simp
  note t3 = fetchBlock_no_data [where w = "world_of (Response 200 (Some txt_err))"
      and str = txt_err and rt = rt0 and h = 500 and data = val_err
      and err = "Some (JStr ''rate limited'')"]
  from t3 have "net (world_of (Response 200 (Some txt_err)))
        (sent (world_of (Response 200 (Some txt_err)))) = Response 200 (Some txt_err) \<and>
      JSON_parse rt0 txt_err = Some val_err \<and>
      get_prop val_err ''error'' = Inr (Some (JStr ''rate limited'')) \<and>
      truthy (Some (JStr ''rate limited'')) \<longrightarrow>
      fst (fetchBlock rt0 500 (world_of (Response 200 (Some txt_err)))) = Inr JNull \<and>
      fst (fetchBlock_lake rt0 500 (world_of (Response 200 (Some txt_err)))) = Inr val_err"
    by blast
  with s p(2) e(1) have c3: "fst (fetchBlock rt0 500 (world_of (Response 200 (Some txt_err)))) =
      Inr JNull"
    by simp
  note t4 = fetchBlock_no_data [where w = "world_of (Response 200 (Some txt_blk))"
      and str = txt_blk and rt = rt0 and h = 500 and data = val_blk and err = None]
  from t4 have "net (world_of (Response 200 (Some txt_blk)))
        (sent (world_of (Response 200 (Some txt_blk)))) = Response 200 (Some txt_blk) \<and>
      2 \<le> length txt_blk \<and> JSON_parse rt0 txt_blk = Some val_blk \<and>
      get_prop val_blk ''error'' = Inr None \<and> \<not> truthy None \<longrightarrow>
      fst (fetchBlock rt0 500 (world_of (Response 200 (Some txt_blk)))) = Inr val_blk \<and>
      fst (fetchBlock_lake rt0 500 (world_of (Response 200 (Some txt_blk)))) = Inr val_blk"
    by blast
  with s p(3) e(3) e(5) have c4: "fst (fetchBlock rt0 500 (world_of (Response 200 (Some txt_blk)))) =
      Inr val_blk"
    by simp
  from c1 c2 c3 c4 e(1) e(3) sample_parse_bad sample_parse_err sample_parse_blk
  show ?thesis by blast
qed

text \<open>
  C5, as stated, fails on the iterations that do not end with a processed block. In the
  newer file an iteration in which the fetch throws sleeps 5000 ms, and one that skips a
  missing block (status 404) computes no sleep: its last effect is the third request, the
  sleeps before it being the backoff of the retry loop. The distance is taken after the
  increment: at height 899 with the tip at 1000 the distance of the block being processed
  is 101, above the threshold, and the sleep is the poll interval of 350 ms. In
  \<^verbatim>\<open>src/lake.ts\<close> a skipped block is followed by no sleep at all, and a processed block by
  the one interval of 50 ms, far from the tip and next to it.
\<close>

theorem iterations_without_adaptive_sleep:
  "trace (io (iteration rt0 (state_at 500 1000 Rejected))) =
     [GetBlock 500, Sleep 1000, GetBlock 500, Sleep 2000, GetBlock 500, Sleep 5000] \<and>
   io (iteration rt0 (state_at 500 1000 (Response 404 (Some [])))) =
     snd (fetchBlockWithRetry rt0 500 (world_of (Response 404 (Some [])))) \<and>
   trace (io (iteration rt0 (state_at 500 1000 (Response 404 (Some []))))) =
     [GetBlock 500, Sleep 1000, GetBlock 500, Sleep 2000, GetBlock 500] \<and>
   latestKnownHeight (state_at 899 1000 (Response 200 (Some txt_blk))) -
     currentHeight (state_at 899 1000 (Response 200 (Some txt_blk))) = 101 \<and>
   CATCHUP_THRESHOLD = 100 \<and>
   trace (io (iteration rt0 (state_at 899 1000 (Response 200 (Some txt_blk))))) =
     [GetBlock 899, Sleep 350] \<and>
   trace (io (iteration_lake rt0 (state_at 500 1000 (Response 404 (Some []))))) =
     [GetBlock 500] \<and>
   trace (io (iteration_lake rt0 (state_at 500 100000 (Response 200 (Some txt_blk))))) =
     [GetBlock 500, Sleep 50] \<and>
   trace (io (iteration_lake rt0 (state_at 999 1000 (Response 200 (Some txt_blk))))) =
     [GetBlock 999, Sleep 50]"
proof -
  have a: "trace (io (iteration rt0 (state_at 500 1000 Rejected))) =
     [GetBlock 500, Sleep 1000, GetBlock 500, Sleep 2000, GetBlock 500, Sleep 5000]"
    by (simp add: iteration_def refresh_state_at process_height_def)
       (simp add: state_at_def eval_retry_rejected sleep_def)
  have b: "io (iteration rt0 (state_at 500 1000 (Response 404 (Some [])))) =
     snd (fetchBlockWithRetry rt0 500 (world_of (Response 404 (Some []))))"
    by (simp add: iteration_def refresh_state_at process_height_def)
       (simp add: state_at_def eval_retry_404)
  have c: "trace (io (iteration rt0 (state_at 500 1000 (Response 404 (Some []))))) =
     [GetBlock 500, Sleep 1000, GetBlock 500, Sleep 2000, GetBlock 500]"
    by (simp add: b eval_retry_404)
  have d: "latestKnownHeight (state_at 899 1000 (Response 200 (Some txt_blk))) -
     currentHeight (state_at 899 1000 (Response 200 (Some txt_blk))) = 101"
    "CATCHUP_THRESHOLD = 100"
    by (simp_all add: state_at_def CATCHUP_THRESHOLD_def)
  have e: "trace (io (iteration rt0 (state_at 899 1000 (Response 200 (Some txt_blk))))) =
     [GetBlock 899, Sleep 350]"
    by (simp add: eval_iteration_blk pace_def CATCHUP_THRESHOLD_def POLL_INTERVAL_MS_def)
  have f: "trace (io (iteration_lake rt0 (state_at 500 1000 (Response 404 (Some []))))) =
     [GetBlock 500]"
    by (simp add: iteration_lake_def refresh_lake_state_at process_height_lake_def)
       (simp add: state_at_def eval_retry_lake_404)
  have g: "trace (io (iteration_lake rt0 (state_at 500 100000 (Response 200 (Some txt_blk))))) =
     [GetBlock 500, Sleep 50]"
    "trace (io (iteration_lake rt0 (state_at 999 1000 (Response 200 (Some txt_blk))))) =
     [GetBlock 999, Sleep 50]"
    by (simp_all add: eval_iteration_lake_blk)
  from a b c d e f g show ?thesis by blast
qed

lemma process_height_cases:
  assumes "\<not> currentHeight s > latestKnownHeight s"
  shows "(fetchBlockWithRetry rt (currentHeight s) (io s) = (Inr b, w) \<and> b \<noteq> JNull \<and>
          parseBlock rt b (database s) = (Inr n, d) \<longrightarrow>
            io (process_height rt s) =
              sleep (if latestKnownHeight s - (currentHeight s + 1) > CATCHUP_THRESHOLD
                     then CATCHUP_INTERVAL_MS else POLL_INTERVAL_MS) w \<and>
            currentHeight (process_height rt s) = currentHeight s + 1) \<and>
         (fetchBlockWithRetry rt (currentHeight s) (io s) = (Inr JNull, w) \<longrightarrow>
            io (process_height rt s) = w)"
  using assms by (simp add: process_height_def pace_def)

lemma process_height_lake_cases:
  assumes "\<not> currentHeight s > latestKnownHeight s"
  shows "(fetchBlockWithRetry_lake rt (currentHeight s) (io s) = (Inr b, w) \<and> b \<noteq> JNull \<and>
          parseBlock rt b (database s) = (Inr n, d) \<longrightarrow>
            io (process_height_lake rt s) = sleep POLL_INTERVAL_MS_lake w \<and>
            currentHeight (process_height_lake rt s) = currentHeight s + 1) \<and>
         (fetchBlockWithRetry_lake rt (currentHeight s) (io s) = (Inr JNull, w) \<longrightarrow>
            io (process_height_lake rt s) = w)"
  using assms by (simp add: process_height_lake_def)

lemma process_height_at_tip:
  assumes "currentHeight s > latestKnownHeight s"
  shows "trace (io (process_height rt s)) = trace (io s) @ [Sleep IDLE_INTERVAL_MS, GetTip] \<and>
         currentHeight (process_height rt s) = currentHeight s"
proof -
  from assms have p: "process_height rt s =
      s\<lparr>latestKnownHeight :=
            fst (fetchLatestBlockHeight rt (latestKnownHeight s) (sleep IDLE_INTERVAL_MS (io s))),
          io := snd (fetchLatestBlockHeight rt (latestKnownHeight s)
                       (sleep IDLE_INTERVAL_MS (io s)))\<rparr>"
    by (simp add: process_height_def split: prod.splits)
  show ?thesis by (simp add: p fetchLatestBlockHeight_world sleep_def)
qed

lemma process_height_lake_at_tip:
  assumes "currentHeight s > latestKnownHeight s"
  shows "trace (io (process_height_lake rt s)) = trace (io s) @ [Sleep IDLE_INTERVAL_MS, GetTip] \<and>
         currentHeight (process_height_lake rt s) = currentHeight s"
proof -
  from assms have p: "process_height_lake rt s =
      s\<lparr>latestKnownHeight :=
            fst (fetchLatestBlockHeight_lake rt (latestKnownHeight s)
                   (sleep IDLE_INTERVAL_MS (io s))),
          io := snd (fetchLatestBlockHeight_lake rt (latestKnownHeight s)
                       (sleep IDLE_INTERVAL_MS (io s)))\<rparr>"
    by (simp add: process_height_lake_def split: prod.splits)
  show ?thesis by (simp add: p fetchLatestBlockHeight_lake_world sleep_def)
qed

text \<open>
  C5, amended. An iteration that finds \<open>currentHeight > latestKnownHeight\<close> (after the
  periodic refresh) sleeps \<open>IDLE_INTERVAL_MS\<close>, asks for the tip and keeps the height. An
  iteration that fetches and parses its block sleeps after the increment of
  \<open>currentHeight\<close>: in the newer file \<open>CATCHUP_INTERVAL_MS\<close> when \<open>latestKnownHeight\<close> minus
  the incremented height exceeds \<open>CATCHUP_THRESHOLD\<close> and \<open>POLL_INTERVAL_MS\<close> otherwise, in
  \<^verbatim>\<open>src/lake.ts\<close> always its one \<open>POLL_INTERVAL_MS\<close>. An iteration that skips a missing block
  adds no sleep to what the fetch did, and one that ends in a thrown error sleeps 5000 ms.
\<close>

theorem loop_sleep_by_case:
  "(currentHeight (refresh_tip rt s0) > latestKnownHeight (refresh_tip rt s0) \<longrightarrow>
      trace (io (iteration rt s0)) =
        trace (io (refresh_tip rt s0)) @ [Sleep IDLE_INTERVAL_MS, GetTip] \<and>
      currentHeight (iteration rt s0) = currentHeight s0) \<and>
   (\<not> currentHeight (refresh_tip rt s0) > latestKnownHeight (refresh_tip rt s0) \<and>
    fetchBlockWithRetry rt (currentHeight s0) (io (refresh_tip rt s0)) = (Inr b, w) \<and>
    b \<noteq> JNull \<and> parseBlock rt b (database s0) = (Inr n, d) \<longrightarrow>
      io (iteration rt s0) =
        sleep (if latestKnownHeight (refresh_tip rt s0) - (currentHeight s0 + 1)
                    > CATCHUP_THRESHOLD
               then CATCHUP_INTERVAL_MS else POLL_INTERVAL_MS) w \<and>
      currentHeight (iteration rt s0) = currentHeight s0 + 1) \<and>
   (\<not> currentHeight (refresh_tip rt s0) > latestKnownHeight (refresh_tip rt s0) \<and>
    fetchBlockWithRetry rt (currentHeight s0) (io (refresh_tip rt s0)) = (Inr JNull, w) \<longrightarrow>
      io (iteration rt s0) = w) \<and>
   (\<not> currentHeight (refresh_tip rt s0) > latestKnownHeight (refresh_tip rt s0) \<and>
    (fetchBlockWithRetry rt (currentHeight s0) (io (refresh_tip rt s0)) = (Inl e, w) \<or>
     (\<exists>b d. fetchBlockWithRetry rt (currentHeight s0) (io (refresh_tip rt s0)) = (Inr b, w) \<and>
        b \<noteq> JNull \<and> parseBlock rt b (database s0) = (Inl e, d))) \<longrightarrow>
      io (iteration rt s0) = sleep 5000 w) \<and>
   (currentHeight (refresh_tip_lake rt s0) > latestKnownHeight (refresh_tip_lake rt s0) \<longrightarrow>
      trace (io (iteration_lake rt s0)) =
        trace (io (refresh_tip_lake rt s0)) @ [Sleep IDLE_INTERVAL_MS, GetTip] \<and>
      currentHeight (iteration_lake rt s0) = currentHeight s0) \<and>
   (\<not> currentHeight (refresh_tip_lake rt s0) > latestKnownHeight (refresh_tip_lake rt s0) \<and>
    fetchBlockWithRetry_lake rt (currentHeight s0) (io (refresh_tip_lake rt s0)) = (Inr b, w) \<and>
    b \<noteq> JNull \<and> parseBlock rt b (database s0) = (Inr n, d) \<longrightarrow>
      io (iteration_lake rt s0) = sleep POLL_INTERVAL_MS_lake w \<and>
      currentHeight (iteration_lake rt s0) = currentHeight s0 + 1) \<and>
   (\<not> currentHeight (refresh_tip_lake rt s0) > latestKnownHeight (refresh_tip_lake rt s0) \<and>
    fetchBlockWithRetry_lake rt (currentHeight s0) (io (refresh_tip_lake rt s0)) = (Inr JNull, w)
    \<longrightarrow> io (iteration_lake rt s0) = w) \<and>
   (\<not> currentHeight (refresh_tip_lake rt s0) > latestKnownHeight (refresh_tip_lake rt s0) \<and>
    (fetchBlockWithRetry_lake rt (currentHeight s0) (io (refresh_tip_lake rt s0)) = (Inl e, w) \<or>
     (\<exists>b d. fetchBlockWithRetry_lake rt (currentHeight s0) (io (refresh_tip_lake rt s0)) =
               (Inr b, w) \<and>
        b \<noteq> JNull \<and> parseBlock rt b (database s0) = (Inl e, d))) \<longrightarrow>
      io (iteration_lake rt s0) = sleep 5000 w) \<and>
   CATCHUP_INTERVAL_MS = 50 \<and> POLL_INTERVAL_MS = 350 \<and> IDLE_INTERVAL_MS = 1000 \<and>
   CATCHUP_THRESHOLD = 100 \<and> POLL_INTERVAL_MS_lake = 50"
proof -
  let ?s = "refresh_tip rt s0"
  let ?l = "refresh_tip_lake rt s0"
  have fr: "currentHeight ?s = currentHeight s0" "database ?s = database s0"
    using refresh_tip_frame [of rt s0] by simp_all
  have fl: "currentHeight ?l = currentHeight s0" "database ?l = database s0"
    using refresh_tip_lake_frame [of rt s0] by simp_all
  have n1: "currentHeight ?s > latestKnownHeight ?s \<longrightarrow>
      trace (io (iteration rt s0)) = trace (io ?s) @ [Sleep IDLE_INTERVAL_MS, GetTip] \<and>
      currentHeight (iteration rt s0) = currentHeight s0"
    using process_height_at_tip [of ?s rt] by (simp add: iteration_def fr)
  have n2: "\<not> currentHeight ?s > latestKnownHeight ?s \<and>
    fetchBlockWithRetry rt (currentHeight s0) (io ?s) = (Inr b, w) \<and>
    b \<noteq> JNull \<and> parseBlock rt b (database s0) = (Inr n, d) \<longrightarrow>
      io (iteration rt s0) =
        sleep (if latestKnownHeight ?s - (currentHeight s0 + 1) > CATCHUP_THRESHOLD
               then CATCHUP_INTERVAL_MS else POLL_INTERVAL_MS) w \<and>
      currentHeight (iteration rt s0) = currentHeight s0 + 1"
    using process_height_cases [of ?s rt b w n d] by (simp add: iteration_def fr)
  have n3: "\<not> currentHeight ?s > latestKnownHeight ?s \<and>
    fetchBlockWithRetry rt (currentHeight s0) (io ?s) = (Inr JNull, w) \<longrightarrow>
      io (iteration rt s0) = w"
    using process_height_cases [of ?s rt b w n d] by (simp add: iteration_def fr)
  have n4: "\<not> currentHeight ?s > latestKnownHeight ?s \<and>
    (fetchBlockWithRetry rt (currentHeight s0) (io ?s) = (Inl e, w) \<or>
     (\<exists>b d. fetchBlockWithRetry rt (currentHeight s0) (io ?s) = (Inr b, w) \<and>
        b \<noteq> JNull \<and> parseBlock rt b (database s0) = (Inl e, d))) \<longrightarrow>
      io (iteration rt s0) = sleep 5000 w"
    using process_height_error [of ?s rt e w] by (simp add: iteration_def fr)
  have o1: "currentHeight ?l > latestKnownHeight ?l \<longrightarrow>
      trace (io (iteration_lake rt s0)) = trace (io ?l) @ [Sleep IDLE_INTERVAL_MS, GetTip] \<and>
      currentHeight (iteration_lake rt s0) = currentHeight s0"
    using process_height_lake_at_tip [of ?l rt] by (simp add: iteration_lake_def fl)
  have o2: "\<not> currentHeight ?l > latestKnownHeight ?l \<and>
    fetchBlockWithRetry_lake rt (currentHeight s0) (io ?l) = (Inr b, w) \<and>
    b \<noteq> JNull \<and> parseBlock rt b (database s0) = (Inr n, d) \<longrightarrow>
      io (iteration_lake rt s0) = sleep POLL_INTERVAL_MS_lake w \<and>
      currentHeight (iteration_lake rt s0) = currentHeight s0 + 1"
    using process_height_lake_cases [of ?l rt b w n d] by (simp add: iteration_lake_def fl)
  have o3: "\<not> currentHeight ?l > latestKnownHeight ?l \<and>
    fetchBlockWithRetry_lake rt (currentHeight s0) (io ?l) = (Inr JNull, w) \<longrightarrow>
      io (iteration_lake rt s0) = w"
    using process_height_lake_cases [of ?l rt b w n d] by (simp add: iteration_lake_def fl)
  have o4: "\<not> currentHeight ?l > latestKnownHeight ?l \<and>
    (fetchBlockWithRetry_lake rt (currentHeight s0) (io ?l) = (Inl e, w) \<or>
     (\<exists>b d. fetchBlockWithRetry_lake rt (currentHeight s0) (io ?l) = (Inr b, w) \<and>
        b \<noteq> JNull \<and> parseBlock rt b (database s0) = (Inl e, d))) \<longrightarrow>
      io (iteration_lake rt s0) = sleep 5000 w"
    using process_height_lake_error [of ?l rt e w] by (simp add: iteration_lake_def fl)
  have k: "CATCHUP_INTERVAL_MS = 50" "POLL_INTERVAL_MS = 350" "IDLE_INTERVAL_MS = 1000"
    "CATCHUP_THRESHOLD = 100" "POLL_INTERVAL_MS_lake = 50"
    by (simp_all add: CATCHUP_INTERVAL_MS_def POLL_INTERVAL_MS_def IDLE_INTERVAL_MS_def
        CATCHUP_THRESHOLD_def POLL_INTERVAL_MS_lake_def)
  from n1 n2 n3 n4 o1 o2 o3 o4 k show ?thesis by blast
qed

lemma state_at_fields:
  "currentHeight (state_at h t r) = h" "latestKnownHeight (state_at h t r) = t"
  "io (state_at h t r) = world_of r" "database (state_at h t r) = empty_db"
  by (simp_all add: state_at_def)

theorem loop_sleep_by_case_witness:
  "trace (io (iteration rt0 (state_at 1001 1000 Rejected))) = [Sleep 1000, GetTip] \<and>
   currentHeight (iteration rt0 (state_at 1001 1000 Rejected)) = 1001 \<and>
   io (iteration rt0 (state_at 500 1000 (Response 200 (Some txt_blk)))) =
     \<lparr>net = (\<lambda>n. Response 200 (Some txt_blk)), sent = 1, trace = [GetBlock 500, Sleep 50]\<rparr> \<and>
   io (iteration rt0 (state_at 900 1000 (Response 200 (Some txt_blk)))) =
     \<lparr>net = (\<lambda>n. Response 200 (Some txt_blk)), sent = 1, trace = [GetBlock 900, Sleep 350]\<rparr> \<and>
   io (iteration_lake rt0 (state_at 500 1000 (Response 200 (Some txt_blk)))) =
     \<lparr>net = (\<lambda>n. Response 200 (Some txt_blk)), sent = 1, trace = [GetBlock 500, Sleep 50]\<rparr> \<and>
   io (iteration rt0 (state_at 500 1000 (Response 404 (Some [])))) =
     \<lparr>net = (\<lambda>n. Response 404 (Some [])), sent = 3,
       trace = [GetBlock 500, Sleep 1000, GetBlock 500, Sleep 2000, GetBlock 500]\<rparr>"
proof -
  let ?B = "Response 200 (Some txt_blk)"
  let ?wb = "\<lambda>h. \<lparr>net = (\<lambda>n. ?B), sent = 1, trace = [GetBlock h]\<rparr>"
  let ?w3 = "\<lparr>net = (\<lambda>n. Response 404 (Some [])), sent = 3,
       trace = [GetBlock 500, Sleep 1000, GetBlock 500, Sleep 2000, GetBlock 500]\<rparr>"
  have v: "val_blk \<noteq> JNull" by (simp add: val_blk_def)
  have k: "CATCHUP_INTERVAL_MS = 50" "POLL_INTERVAL_MS = 350" "IDLE_INTERVAL_MS = 1000"
    "CATCHUP_THRESHOLD = 100" "POLL_INTERVAL_MS_lake = 50"
    by (simp_all add: CATCHUP_INTERVAL_MS_def POLL_INTERVAL_MS_def IDLE_INTERVAL_MS_def
        CATCHUP_THRESHOLD_def POLL_INTERVAL_MS_lake_def)
  note t1 = loop_sleep_by_case [where rt = rt0 and ?s0.0 = "state_at 1001 1000 Rejected"]
  have "currentHeight (refresh_tip rt0 (state_at 1001 1000 Rejected)) >
      latestKnownHeight (refresh_tip rt0 (state_at 1001 1000 Rejected))"
    by (simp add: refresh_state_at state_at_fields)
  with t1 have "trace (io (iteration rt0 (state_at 1001 1000 Rejected))) =
        trace (io (refresh_tip rt0 (state_at 1001 1000 Rejected))) @
          [Sleep IDLE_INTERVAL_MS, GetTip] \<and>
      currentHeight (iteration rt0 (state_at 1001 1000 Rejected)) =
        currentHeight (state_at 1001 1000 Rejected)"
    by blast
  then have c1: "trace (io (iteration rt0 (state_at 1001 1000 Rejected))) = [Sleep 1000, GetTip] \<and>
      currentHeight (iteration rt0 (state_at 1001 1000 Rejected)) = 1001"
    by (simp add: refresh_state_at state_at_fields world_of_def k)
  note t2 = loop_sleep_by_case [where rt = rt0 and ?s0.0 = "state_at 500 1000 ?B"
      and b = val_blk and w = "?wb 500" and n = 0 and d = empty_db]
  have "\<not> currentHeight (refresh_tip rt0 (state_at 500 1000 ?B)) >
        latestKnownHeight (refresh_tip rt0 (state_at 500 1000 ?B)) \<and>
      fetchBlockWithRetry rt0 (currentHeight (state_at 500 1000 ?B))
        (io (refresh_tip rt0 (state_at 500 1000 ?B))) = (Inr val_blk, ?wb 500) \<and>
      val_blk \<noteq> JNull \<and>
      parseBlock rt0 val_blk (database (state_at 500 1000 ?B)) = (Inr 0, empty_db)"
    by (simp add: refresh_state_at state_at_fields eval_retry_blk v parse_val_blk)
  with t2 have "io (iteration rt0 (state_at 500 1000 ?B)) =
        sleep (if latestKnownHeight (refresh_tip rt0 (state_at 500 1000 ?B)) -
                    (currentHeight (state_at 500 1000 ?B) + 1) > CATCHUP_THRESHOLD
               then CATCHUP_INTERVAL_MS else POLL_INTERVAL_MS) (?wb 500)"
    by blast
  then have c2: "io (iteration rt0 (state_at 500 1000 ?B)) =
      \<lparr>net = (\<lambda>n. ?B), sent = 1, trace = [GetBlock 500, Sleep 50]\<rparr>"
    by (simp add: refresh_state_at state_at_fields k sleep_def)
  note t3 = loop_sleep_by_case [where rt = rt0 and ?s0.0 = "state_at 900 1000 ?B"
      and b = val_blk and w = "?wb 900" and n = 0 and d = empty_db]
  have "\<not> currentHeight (refresh_tip rt0 (state_at 900 1000 ?B)) >
        latestKnownHeight (refresh_tip rt0 (state_at 900 1000 ?B)) \<and>
      fetchBlockWithRetry rt0 (currentHeight (state_at 900 1000 ?B))
        (io (refresh_tip rt0 (state_at 900 1000 ?B))) = (Inr val_blk, ?wb 900) \<and>
      val_blk \<noteq> JNull \<and>
      parseBlock rt0 val_blk (database (state_at 900 1000 ?B)) = (Inr 0, empty_db)"
    by (simp add: refresh_state_at state_at_fields eval_retry_blk v parse_val_blk)
  with t3 have "io (iteration rt0 (state_at 900 1000 ?B)) =
        sleep (if latestKnownHeight (refresh_tip rt0 (state_at 900 1000 ?B)) -
                    (currentHeight (state_at 900 1000 ?B) + 1) > CATCHUP_THRESHOLD
               then CATCHUP_INTERVAL_MS else POLL_INTERVAL_MS) (?wb 900)"
    by blast
  then have c3: "io (iteration rt0 (state_at 900 1000 ?B)) =
      \<lparr>net = (\<lambda>n. ?B), sent = 1, trace = [GetBlock 900, Sleep 350]\<rparr>"
    by (simp add: refresh_state_at state_at_fields k sleep_def)
  have "\<not> currentHeight (refresh_tip_lake rt0 (state_at 500 1000 ?B)) >
        latestKnownHeight (refresh_tip_lake rt0 (state_at 500 1000 ?B)) \<and>
      fetchBlockWithRetry_lake rt0 (currentHeight (state_at 500 1000 ?B))
        (io (refresh_tip_lake rt0 (state_at 500 1000 ?B))) = (Inr val_blk, ?wb 500) \<and>
      val_blk \<noteq> JNull \<and>
      parseBlock rt0 val_blk (database (state_at 500 1000 ?B)) = (Inr 0, empty_db)"
    by (simp add: refresh_lake_state_at state_at_fields eval_retry_lake_blk v parse_val_blk)
  with t2 have "io (iteration_lake rt0 (state_at 500 1000 ?B)) =
      sleep POLL_INTERVAL_MS_lake (?wb 500)"
    by blast
  then have c4: "io (iteration_lake rt0 (state_at 500 1000 ?B)) =
      \<lparr>net = (\<lambda>n. ?B), sent = 1, trace = [GetBlock 500, Sleep 50]\<rparr>"
    by (simp add: k sleep_def)
  note t5 = loop_sleep_by_case [where rt = rt0
      and ?s0.0 = "state_at 500 1000 (Response 404 (Some []))" and w = ?w3]
  have "\<not> currentHeight (refresh_tip rt0 (state_at 500 1000 (Response 404 (Some [])))) >
        latestKnownHeight (refresh_tip rt0 (state_at 500 1000 (Response 404 (Some [])))) \<and>
      fetchBlockWithRetry rt0 (currentHeight (state_at 500 1000 (Response 404 (Some []))))
        (io (refresh_tip rt0 (state_at 500 1000 (Response 404 (Some []))))) = (Inr JNull, ?w3)"
    by (simp add: refresh_state_at state_at_fields eval_retry_404)
  with t5 have c5: "io (iteration rt0 (state_at 500 1000 (Response 404 (Some [])))) = ?w3"
    by blast
  from c1 c2 c3 c4 c5 show ?thesis by blast
qed

end
